theory Spec2Isabelle
  imports Main "HOL-Library.Word"
begin

section \<open>Machine types, fatal outcomes and logging\<close>

text \<open>
  The C++ sources use \<open>uint32_t\<close>, \<open>uint64_t\<close> and raw pointers on a 64-bit platform.
  They are embedded as words: every \<open>+\<close>, \<open>-\<close> and \<open>*\<close> wraps as the unsigned C++
  arithmetic does, pointer comparison is the unsigned order on addresses, and a
  pointer difference cast to \<open>uint64_t\<close> is the word difference.
\<close>

type_synonym u32 = "32 word"
type_synonym u64 = "64 word"
type_synonym ptr = "64 word"

definition nullptr :: ptr where
  "nullptr = 0"

text \<open>
  The tags handed to \<open>errorHandler\<close> in \<open>mem_pool.cpp\<close>.
\<close>

datatype PoshError =
    MEPOO__MEMPOOL_CHUNKSIZE_MUST_BE_MULTIPLE_OF_CHUNK_MEMORY_ALIGNMENT
  | POSH__MEMPOOL_POSSIBLE_DOUBLE_FREE

text \<open>
  A fatal path ends the call and does not return (section 7 of the specification): it is
  the \<open>Inl\<close> branch of every result.  \<open>ErrorHandler t\<close> is a call of \<open>errorHandler(t)\<close>,
  \<open>ExpectsFailed\<close> a violated \<open>IOX_EXPECTS\<close> / \<open>IOX_EXPECTS_WITH_MSG\<close>, and
  \<open>DivisionByZero\<close> the trap of an unsigned \<open>/\<close> or \<open>%\<close> by zero, which C++ leaves
  undefined and HOL would silently evaluate.
\<close>

datatype fatal = ErrorHandler PoshError | ExpectsFailed | DivisionByZero

datatype LogLevel = FATAL | WARN

section \<open>The free-index queue\<close>

text \<open>
  Modelled from the spec: the type \<open>freeList_t\<close> of \<open>m_freeIndices\<close> (its \<open>init\<close>,
  \<open>push\<close> and \<open>pop\<close>) is declared outside the files at hand.  Section 4.1 describes a
  bounded queue of \<open>chunkCount\<close> slots: \<open>push\<close> inserts an index and returns false if
  the queue is already full, \<open>pop\<close> removes and returns some index and returns empty if
  the queue is empty, and construction pre-loads all indices \<open>0..chunkCount-1\<close>.  Any
  order of removal is allowed; this model removes the oldest index.
\<close>

record freeList_t =
  capacity :: nat
  indices :: "u32 list"

text \<open>
  Modelled from the spec: \<open>init\<close> of the queue type, which is outside the files at hand;
  the queue starts with all indices \<open>0..chunkCount-1\<close> (section 4.3, step 5).
\<close>

definition init :: "u32 \<Rightarrow> freeList_t" where
  "init n = \<lparr>capacity = unat n, indices = map of_nat [0 ..< unat n]\<rparr>"

text \<open>
  Modelled from the spec: \<open>pop\<close> of the queue type, which is outside the files at hand; it
  removes and returns an index, or returns empty if the queue is empty (section 4.1).
\<close>

definition pop :: "freeList_t \<Rightarrow> (u32 \<times> freeList_t) option" where
  "pop q = (case indices q of
              [] \<Rightarrow> None
            | i # rest \<Rightarrow> Some (i, q\<lparr>indices := rest\<rparr>))"

text \<open>
  Modelled from the spec: \<open>push\<close> of the queue type, which is outside the files at hand; it
  inserts the index, or returns false if the queue is already full (section 4.1).
\<close>

definition push :: "u32 \<Rightarrow> freeList_t \<Rightarrow> freeList_t option" where
  "push i q = (if length (indices q) < capacity q
               then Some (q\<lparr>indices := indices q @ [i]\<rparr>)
               else None)"

section \<open>The bump allocator\<close>

text \<open>
  Modelled from the spec: \<open>iox::BumpAllocator\<close> is declared outside the files at hand.
  Section 4.2: given a memory region of known size it hands out successively higher
  sub-regions of the requested size and alignment, and fails if the remaining space
  cannot satisfy the alignment-adjusted request.  The region is
  \<open>[startAddress, startAddress + length)\<close>; the arithmetic is done on natural numbers, so
  that a request that does not fit never wraps into one that does.
\<close>

record BumpAllocator =
  startAddress :: u64
  length_bytes :: u64
  currentPosition :: u64

text \<open>
  Modelled from the spec: the alignment adjustment of sections 4.2 and 4.4, the smallest
  multiple of \<open>alignment\<close> that is at least \<open>a\<close>; an alignment of 0 constrains
  nothing.
\<close>

definition align_up :: "nat \<Rightarrow> nat \<Rightarrow> nat" where
  "align_up a alignment =
     (if alignment = 0 then a else ((a + alignment - 1) div alignment) * alignment)"

text \<open>
  Modelled from the spec: \<open>BumpAllocator::allocate\<close>, which is outside the files at hand
  (section 4.2).  It returns the aligned address and the allocator with its position
  behind the new sub-region, or fails.
\<close>

definition allocate :: "BumpAllocator \<Rightarrow> u64 \<Rightarrow> u64 \<Rightarrow> (ptr \<times> BumpAllocator) option" where
  "allocate a sz alignment =
     (let alignedAddress = align_up (unat (startAddress a) + unat (currentPosition a)) (unat alignment);
          nextPosition = alignedAddress - unat (startAddress a) + unat sz
      in if nextPosition \<le> unat (length_bytes a)
         then Some (of_nat alignedAddress, a\<lparr>currentPosition := of_nat nextPosition\<rparr>)
         else None)"

section \<open>MemPool\<close>

text \<open>
  Modelled from the spec: the declaration of \<open>MemPool::CHUNK_MEMORY_ALIGNMENT\<close> is in
  \<open>mem_pool.hpp\<close>, outside the files at hand; section 6 fixes it to 32.
\<close>

definition CHUNK_MEMORY_ALIGNMENT :: u64 where
  "CHUNK_MEMORY_ALIGNMENT = 32"

text \<open>
  The members of \<open>MemPool\<close> that \<open>mem_pool.cpp\<close> reads and writes.  The two atomics are
  plain fields; the functions below run each call to its end without interruption, and
  calls that interleave are treated in their own section.
\<close>

record MemPool =
  m_chunkSize :: u64
  m_numberOfChunks :: u32
  m_usedChunks :: u32
  m_minFree :: u32
  m_rawMemory :: ptr
  m_freeIndices :: freeList_t

definition isMultipleOfAlignment :: "u64 \<Rightarrow> bool" where
  "isMultipleOfAlignment v = (v mod CHUNK_MEMORY_ALIGNMENT = 0)"

definition adjustMinFree :: "MemPool \<Rightarrow> MemPool" where
  "adjustMinFree p = p\<lparr>m_minFree := min (m_numberOfChunks p - m_usedChunks p) (m_minFree p)\<rparr>"

definition indexToPointer :: "u32 \<Rightarrow> u64 \<Rightarrow> ptr \<Rightarrow> ptr" where
  "indexToPointer index chunkSize rawMemoryBase =
     (let offset = ucast index * chunkSize in rawMemoryBase + offset)"

definition pointerToIndex :: "ptr \<Rightarrow> u64 \<Rightarrow> ptr \<Rightarrow> fatal + u32" where
  "pointerToIndex chunk chunkSize rawMemoryBase =
     (let offset = chunk - rawMemoryBase
      in if chunkSize = 0 then Inl DivisionByZero
         else if offset mod chunkSize \<noteq> 0 then Inl ExpectsFailed
         else Inr (ucast (offset div chunkSize)))"

text \<open>
  \<open>getChunk\<close> returns what it logged, and the pointer together with the pool after
  the call.  It has no fatal path of its own.
\<close>

definition getChunk :: "MemPool \<Rightarrow> LogLevel list \<times> (fatal + ptr \<times> MemPool)" where
  "getChunk p =
     (case pop (m_freeIndices p) of
        None \<Rightarrow> ([WARN], Inr (nullptr, p))
      | Some (index, q) \<Rightarrow>
          (let p1 = p\<lparr>m_freeIndices := q\<rparr>;
               p2 = p1\<lparr>m_usedChunks := m_usedChunks p1 + 1\<rparr>;
               p3 = adjustMinFree p2
           in ([], Inr (indexToPointer index (m_chunkSize p3) (m_rawMemory p3), p3))))"

definition freeChunk :: "MemPool \<Rightarrow> ptr \<Rightarrow> fatal + MemPool" where
  "freeChunk p chunk =
     (let offsetToLastChunk = m_chunkSize p * ucast (m_numberOfChunks p - 1)
      in if \<not> (m_rawMemory p \<le> chunk \<and> chunk \<le> m_rawMemory p + offsetToLastChunk)
         then Inl ExpectsFailed
         else (case pointerToIndex chunk (m_chunkSize p) (m_rawMemory p) of
                 Inl e \<Rightarrow> Inl e
               | Inr index \<Rightarrow>
                   (case push index (m_freeIndices p) of
                      None \<Rightarrow> Inl (ErrorHandler POSH__MEMPOOL_POSSIBLE_DOUBLE_FREE)
                    | Some q \<Rightarrow>
                        Inr (p\<lparr>m_freeIndices := q, m_usedChunks := m_usedChunks p - 1\<rparr>))))"

definition getChunkSize :: "MemPool \<Rightarrow> u64" where
  "getChunkSize p = m_chunkSize p"

definition getChunkCount :: "MemPool \<Rightarrow> u32" where
  "getChunkCount p = m_numberOfChunks p"

definition getUsedChunks :: "MemPool \<Rightarrow> u32" where
  "getUsedChunks p = m_usedChunks p"

definition getMinFree :: "MemPool \<Rightarrow> u32" where
  "getMinFree p = m_minFree p"

text \<open>
  The constructor.  Both allocators are passed by reference and may be the same object,
  so they are read from and written back to a store of allocators indexed by a
  reference.  \<open>requiredIndexMemorySize\<close> belongs to the queue type and is a parameter.
  The member \<open>m_usedChunks\<close> starts at 0 (section 4.3, step 6).  The parameter types
  \<open>greater_or_equal<uint64_t, CHUNK_MEMORY_ALIGNMENT>\<close> and
  \<open>greater_or_equal<uint32_t, 1>\<close> promise a chunk size of at least the alignment and at
  least one chunk before the body runs; the model takes plain words, and writes out the
  trap of \<open>UINT64_MAX / 0\<close> that those types rule out.
\<close>

type_synonym allocators = "nat \<Rightarrow> BumpAllocator"

definition MemPool_ctor ::
  "(u32 \<Rightarrow> u64) \<Rightarrow> u64 \<Rightarrow> u32 \<Rightarrow> nat \<Rightarrow> nat \<Rightarrow> allocators
     \<Rightarrow> LogLevel list \<times> (fatal + MemPool \<times> allocators)" where
  "MemPool_ctor requiredIndexMemorySize chunkSize numberOfChunks
                managementAllocator chunkMemoryAllocator s =
     (if isMultipleOfAlignment chunkSize then
        (if numberOfChunks = 0 then ([], Inl DivisionByZero)
         else if \<not> (chunkSize \<le> (- 1) div ucast numberOfChunks) then ([], Inl ExpectsFailed)
         else (case allocate (s chunkMemoryAllocator) (ucast numberOfChunks * chunkSize)
                             CHUNK_MEMORY_ALIGNMENT of
                 None \<Rightarrow> ([], Inl ExpectsFailed)
               | Some (rawMemory, a1) \<Rightarrow>
                   (let s1 = s(chunkMemoryAllocator := a1)
                    in (case allocate (s1 managementAllocator)
                                      (requiredIndexMemorySize numberOfChunks)
                                      CHUNK_MEMORY_ALIGNMENT of
                          None \<Rightarrow> ([], Inl ExpectsFailed)
                        | Some (memoryFreeList, a2) \<Rightarrow>
                            ([], Inr (\<lparr>m_chunkSize = chunkSize,
                                       m_numberOfChunks = numberOfChunks,
                                       m_usedChunks = 0,
                                       m_minFree = numberOfChunks,
                                       m_rawMemory = rawMemory,
                                       m_freeIndices = init numberOfChunks\<rparr>,
                                      s1(managementAllocator := a2)))))))
      else ([FATAL], Inl (ErrorHandler MEPOO__MEMPOOL_CHUNKSIZE_MUST_BE_MULTIPLE_OF_CHUNK_MEMORY_ALIGNMENT)))"

text \<open>
  Sequential traces of pool operations: a trace stops at the first fatal call.
\<close>

datatype operation = GetChunk | FreeChunk ptr

fun step :: "MemPool \<Rightarrow> operation \<Rightarrow> fatal + MemPool" where
  "step p GetChunk = (case snd (getChunk p) of Inl e \<Rightarrow> Inl e | Inr (c, p') \<Rightarrow> Inr p')"
| "step p (FreeChunk c) = freeChunk p c"

fun run :: "MemPool \<Rightarrow> operation list \<Rightarrow> fatal + MemPool" where
  "run p [] = Inr p"
| "run p (x # xs) = (case step p x of Inl e \<Rightarrow> Inl e | Inr p' \<Rightarrow> run p' xs)"

section \<open>Interleaved calls of getChunk\<close>

text \<open>
  The pool is shared between threads and processes, and \<open>getChunk\<close> is not one atomic
  action: it is the pop from the queue, the \<open>fetch_add\<close> on \<open>m_usedChunks\<close>, the loads of
  \<open>m_usedChunks\<close> and \<open>m_minFree\<close> in \<open>adjustMinFree\<close>, and the store to \<open>m_minFree\<close>.
  \<open>getChunk_pc\<close> is the position of one call, with the popped index and the loaded
  minimum it holds locally; \<open>getChunk_step\<close> performs the next of these actions on the
  shared pool.  The two loads are taken as one action (a schedule of the finer actions
  can always run them back to back), and the warning on exhaustion is not recorded.
\<close>

datatype getChunk_pc = AtPop | AtFetchAdd u32 | AtLoad u32 | AtStore u32 u32 | Returned ptr

fun getChunk_step :: "getChunk_pc \<Rightarrow> MemPool \<Rightarrow> getChunk_pc \<times> MemPool" where
  "getChunk_step AtPop p =
     (case pop (m_freeIndices p) of
        None \<Rightarrow> (Returned nullptr, p)
      | Some (index, q) \<Rightarrow> (AtFetchAdd index, p\<lparr>m_freeIndices := q\<rparr>))"
| "getChunk_step (AtFetchAdd index) p = (AtLoad index, p\<lparr>m_usedChunks := m_usedChunks p + 1\<rparr>)"
| "getChunk_step (AtLoad index) p =
     (AtStore index (min (m_numberOfChunks p - m_usedChunks p) (m_minFree p)), p)"
| "getChunk_step (AtStore index v) p =
     (Returned (indexToPointer index (m_chunkSize p) (m_rawMemory p)), p\<lparr>m_minFree := v\<rparr>)"
| "getChunk_step (Returned c) p = (Returned c, p)"

text \<open>
  Two calls in two threads, and a schedule that says which thread moves next.  Every
  schedule is an execution that the relaxed atomics of the source allow.
\<close>

datatype thread = ThreadA | ThreadB

fun schedule_step :: "thread \<Rightarrow> getChunk_pc \<times> getChunk_pc \<times> MemPool
                        \<Rightarrow> getChunk_pc \<times> getChunk_pc \<times> MemPool" where
  "schedule_step ThreadA (a, b, p) = (let (a', p') = getChunk_step a p in (a', b, p'))"
| "schedule_step ThreadB (a, b, p) = (let (b', p') = getChunk_step b p in (a, b', p'))"

fun schedule :: "thread list \<Rightarrow> getChunk_pc \<times> getChunk_pc \<times> MemPool
                   \<Rightarrow> getChunk_pc \<times> getChunk_pc \<times> MemPool" where
  "schedule [] s = s"
| "schedule (t # ts) s = schedule ts (schedule_step t s)"

section \<open>Invariants of the pool counters\<close>

text \<open>
  \<open>conservation\<close> is the invariant of section 3: free indices plus used chunks make up
  the chunk count.  \<open>counters_inv\<close> adds what keeps it inductive: the queue has one
  slot per chunk, and \<open>m_minFree\<close> is at most the number of chunks not in use.
\<close>

definition conservation :: "MemPool \<Rightarrow> bool" where
  "conservation p \<longleftrightarrow>
     length (indices (m_freeIndices p)) + unat (m_usedChunks p) = unat (m_numberOfChunks p)"

definition counters_inv :: "MemPool \<Rightarrow> bool" where
  "counters_inv p \<longleftrightarrow>
     capacity (m_freeIndices p) = unat (m_numberOfChunks p) \<and>
     conservation p \<and>
     m_minFree p \<le> m_numberOfChunks p - m_usedChunks p"

text \<open>
  What makes the chunk area a real block of memory: the base is not the null pointer, the
  block \<open>[m_rawMemory, m_rawMemory + chunkSize * numberOfChunks)\<close> ends inside the
  64-bit address space, chunks are not empty, and every free index names a chunk.
\<close>

definition chunk_memory_inv :: "MemPool \<Rightarrow> bool" where
  "chunk_memory_inv p \<longleftrightarrow>
     m_rawMemory p \<noteq> nullptr \<and>
     m_chunkSize p \<noteq> 0 \<and>
     m_numberOfChunks p \<noteq> 0 \<and>
     unat (m_rawMemory p) + unat (m_chunkSize p) * unat (m_numberOfChunks p) \<le> 18446744073709551616 \<and>
     list_all (\<lambda>i. i < m_numberOfChunks p) (indices (m_freeIndices p))"

text \<open>
  The same for the region an allocator hands memory out of.
\<close>

definition region_ok :: "BumpAllocator \<Rightarrow> bool" where
  "region_ok a \<longleftrightarrow>
     startAddress a \<noteq> nullptr \<and>
     unat (startAddress a) + unat (length_bytes a) \<le> 18446744073709551616"

section \<open>ChunkHeader\<close>

text \<open>
  Modelled from the spec: \<open>chunk_header.hpp\<close> and \<open>chunk_header.cpp\<close> are outside the
  files at hand; only the tests of \<open>ChunkHeader\<close> are present.  The fields are those of
  section 3.  \<open>sizeof(ChunkHeader)\<close> is not fixed by the files at hand and is the
  parameter \<open>sizeof_ChunkHeader\<close>; \<open>PayloadOffset_t\<close> is the unsigned 32-bit type of
  \<open>payloadOffset\<close>, four bytes wide.
\<close>

datatype UniquePortId = InvalidId | PortId u64

text \<open>
  Modelled from the spec: the fields of \<open>ChunkHeader\<close> (section 3), whose declaration is
  outside the files at hand.
\<close>

record ChunkHeader =
  chunkSize :: u32
  chunkHeaderVersion :: "8 word"
  reserved1 :: "8 word"
  reserved2 :: "16 word"
  reserved3 :: u32
  originId :: UniquePortId
  sequenceNumber :: u64
  payloadSize :: u32
  payloadOffset :: u32

text \<open>
  Modelled from the spec: \<open>sizeof(PayloadOffset_t)\<close>, the width of the unsigned 32-bit
  \<open>payloadOffset\<close> (section 3).
\<close>

definition sizeof_PayloadOffset_t :: u64 where
  "sizeof_PayloadOffset_t = 4"

text \<open>
  The part of memory the header functions touch: the \<open>PayloadOffset_t\<close> value stored at
  an address.
\<close>

type_synonym memory = "ptr \<Rightarrow> u32"

text \<open>
  Modelled from the spec: the constructor of \<open>ChunkHeader\<close>, section 4.4.  Without a
  user header the payload is adjacent, \<open>payloadOffset = sizeof(ChunkHeader)\<close>, and no
  back-offset is written.  With a user header the payload starts at the smallest offset
  that is at least \<open>sizeof(ChunkHeader) + userHeaderSize + sizeof(PayloadOffset_t)\<close> and
  satisfies the payload alignment, and the \<open>PayloadOffset_t\<close> right before the payload
  stores that offset.  \<open>this\<close> is the address the header is constructed at.
\<close>

definition ChunkHeader_ctor ::
  "u32 \<Rightarrow> ptr \<Rightarrow> memory \<Rightarrow> u32 \<Rightarrow> u32 \<Rightarrow> u32 \<Rightarrow> u32 \<Rightarrow> u32 \<Rightarrow> ChunkHeader \<times> memory" where
  "ChunkHeader_ctor sizeof_ChunkHeader this mem chunkSize' payloadSize' payloadAlignment
                    userHeaderSize userHeaderAlignment =
     (let h = \<lparr>chunkSize = chunkSize',
                chunkHeaderVersion = 1,
                reserved1 = 0,
                reserved2 = 0,
                reserved3 = 0,
                originId = InvalidId,
                sequenceNumber = 0,
                payloadSize = payloadSize',
                payloadOffset = sizeof_ChunkHeader\<rparr>
      in if userHeaderSize = 0 then (h, mem)
         else (let offset = (of_nat (align_up (unat sizeof_ChunkHeader + unat userHeaderSize
                                                 + unat sizeof_PayloadOffset_t)
                                              (unat payloadAlignment)) :: u32)
               in (h\<lparr>payloadOffset := offset\<rparr>,
                   mem(this + ucast offset - sizeof_PayloadOffset_t := offset))))"

text \<open>
  Modelled from the spec: \<open>payload()\<close> returns \<open>this + payloadOffset\<close>.
\<close>

definition payload :: "ptr \<Rightarrow> ChunkHeader \<Rightarrow> ptr" where
  "payload this h = this + ucast (payloadOffset h)"

text \<open>
  Modelled from the spec: \<open>fromPayload(p)\<close> returns null for the null pointer; otherwise it
  reads the \<open>PayloadOffset_t\<close> at \<open>p - sizeof(PayloadOffset_t)\<close> only when a user header
  is present, which the caller knows from the layout (the flag \<open>userHeaderPresent\<close>), and
  returns \<open>p - offset\<close>; for the adjacent layout the offset is \<open>sizeof(ChunkHeader)\<close>.
\<close>

definition fromPayload :: "u32 \<Rightarrow> memory \<Rightarrow> bool \<Rightarrow> ptr \<Rightarrow> ptr" where
  "fromPayload sizeof_ChunkHeader mem userHeaderPresent p =
     (if p = nullptr then nullptr
      else if userHeaderPresent then p - ucast (mem (p - sizeof_PayloadOffset_t))
      else p - ucast sizeof_ChunkHeader)"

text \<open>
  Modelled from the spec: \<open>usedSizeOfChunk()\<close> returns \<open>payloadOffset + payloadSize\<close> and
  is fatal if that exceeds \<open>chunkSize\<close>.  The sum is the mathematical one: the test
  \<open>usedChunkSizeTerminatesWhenPayloadSizeExceedsChunkSize\<close> expects death for
  \<open>payloadSize = UINT32_MAX\<close>, where a 32-bit sum would wrap below \<open>chunkSize\<close>.
\<close>

definition usedSizeOfChunk :: "ChunkHeader \<Rightarrow> fatal + u32" where
  "usedSizeOfChunk h =
     (if unat (payloadOffset h) + unat (payloadSize h) \<le> unat (chunkSize h)
      then Inr (payloadOffset h + payloadSize h)
      else Inl ExpectsFailed)"

section \<open>FileLock\<close>

text \<open>
  \<open>sizeof\<close> of a \<open>char\<close> array initialised from a string literal counts the characters
  and the terminating NUL.  \<open>platform::IOX_MAX_FILENAME_LENGTH\<close> and the array
  \<open>platform::IOX_LOCK_FILE_PATH_PREFIX\<close> are declared by the platform layer, outside
  the files at hand, and are parameters.
\<close>

definition sizeof_char_array :: "string \<Rightarrow> u64" where
  "sizeof_char_array s = of_nat (length s + 1)"

definition sizeof_char :: u64 where
  "sizeof_char = 1"

definition LOCK_FILE_SUFFIX :: string where
  "LOCK_FILE_SUFFIX = ''.lock''"

definition FILENAME_LENGTH :: "u64 \<Rightarrow> string \<Rightarrow> u64" where
  "FILENAME_LENGTH IOX_MAX_FILENAME_LENGTH IOX_LOCK_FILE_PATH_PREFIX =
     IOX_MAX_FILENAME_LENGTH
       - sizeof_char_array IOX_LOCK_FILE_PATH_PREFIX div sizeof_char
       - sizeof_char_array LOCK_FILE_SUFFIX div sizeof_char"

section \<open>Properties of the queue and of word arithmetic\<close>

lemma unat_u32_lt: "unat (n::u32) < 4294967296"
  using unsigned_less [of n, where 'a = nat] by simp

lemma pop_Some: "pop q = Some (i, q') \<Longrightarrow> indices q = i # indices q' \<and> capacity q' = capacity q"
  by (auto simp: pop_def split: list.splits)

lemma pop_None: "pop q = None \<longleftrightarrow> indices q = []"
  by (auto simp: pop_def split: list.splits)

lemma push_Some:
  "push i q = Some q' \<Longrightarrow>
     length (indices q) < capacity q \<and> indices q' = indices q @ [i] \<and> capacity q' = capacity q"
  by (auto simp: push_def split: if_splits)

lemma push_None: "push i q = None \<longleftrightarrow> capacity q \<le> length (indices q)"
  by (auto simp: push_def)

lemma unat_succ_u32: "unat (u::u32) < unat (n::u32) \<Longrightarrow> unat (u + 1) = unat u + 1"
proof -
  assume "unat u < unat n"
  then have "unat u + unat (1::u32) < 2 ^ LENGTH(32)"
    using unat_u32_lt [of n] by simp
  then have "unat (u + 1) = unat u + unat (1::u32)"
    by (simp only: unat_add_lem)
  then show ?thesis by simp
qed

lemma getChunk_cases:
  "(pop (m_freeIndices p) = None \<and> getChunk p = ([WARN], Inr (nullptr, p))) \<or>
   (\<exists>i q. pop (m_freeIndices p) = Some (i, q) \<and>
      getChunk p = ([], Inr (m_rawMemory p + ucast i * m_chunkSize p,
         p\<lparr>m_freeIndices := q, m_usedChunks := m_usedChunks p + 1,
           m_minFree := min (m_numberOfChunks p - (m_usedChunks p + 1)) (m_minFree p)\<rparr>)))"
  by (cases "pop (m_freeIndices p)")
     (auto simp: getChunk_def adjustMinFree_def indexToPointer_def Let_def)

lemma getChunk_counters_inv:
  assumes "counters_inv p" and "snd (getChunk p) = Inr (c, p')"
  shows "counters_inv p'"
proof -
  from getChunk_cases [of p] show ?thesis
  proof (elim disjE exE conjE)
    assume "getChunk p = ([WARN], Inr (nullptr, p))"
    with assms show ?thesis by simp
  next
    fix i q
    assume pp: "pop (m_freeIndices p) = Some (i, q)"
      and g: "getChunk p = ([], Inr (m_rawMemory p + ucast i * m_chunkSize p,
         p\<lparr>m_freeIndices := q, m_usedChunks := m_usedChunks p + 1,
           m_minFree := min (m_numberOfChunks p - (m_usedChunks p + 1)) (m_minFree p)\<rparr>))"
    from pop_Some [OF pp] have ix: "indices (m_freeIndices p) = i # indices q"
      and cap: "capacity q = capacity (m_freeIndices p)" by simp_all
    from assms(1) ix have lt: "unat (m_usedChunks p) < unat (m_numberOfChunks p)"
      by (simp add: counters_inv_def conservation_def)
    have su: "unat (m_usedChunks p + 1) = unat (m_usedChunks p) + 1"
      using lt by (rule unat_succ_u32)
    from g assms(2) have p': "p' = p\<lparr>m_freeIndices := q, m_usedChunks := m_usedChunks p + 1,
           m_minFree := min (m_numberOfChunks p - (m_usedChunks p + 1)) (m_minFree p)\<rparr>"
      by simp
    show ?thesis
      using assms(1) ix cap su unfolding p' counters_inv_def conservation_def by simp
  qed
qed

lemma freeChunk_Inr:
  assumes "freeChunk p c = Inr p'"
  shows "\<exists>i q. pointerToIndex c (m_chunkSize p) (m_rawMemory p) = Inr i \<and>
           push i (m_freeIndices p) = Some q \<and>
           m_rawMemory p \<le> c \<and>
           c \<le> m_rawMemory p + m_chunkSize p * ucast (m_numberOfChunks p - 1) \<and>
           p' = p\<lparr>m_freeIndices := q, m_usedChunks := m_usedChunks p - 1\<rparr>"
  using assms
  by (auto simp: freeChunk_def Let_def split: if_splits sum.splits option.splits)

lemma freeChunk_counters_inv:
  assumes "counters_inv p" and "freeChunk p c = Inr p'"
  shows "counters_inv p'"
proof -
  from freeChunk_Inr [OF assms(2)] obtain i q where
      ps: "push i (m_freeIndices p) = Some q"
    and p': "p' = p\<lparr>m_freeIndices := q, m_usedChunks := m_usedChunks p - 1\<rparr>"
    by blast
  from push_Some [OF ps] have len: "length (indices (m_freeIndices p)) < capacity (m_freeIndices p)"
    and ix: "indices q = indices (m_freeIndices p) @ [i]"
    and cap: "capacity q = capacity (m_freeIndices p)" by simp_all
  from assms(1) have c: "length (indices (m_freeIndices p)) + unat (m_usedChunks p) = unat (m_numberOfChunks p)"
    and capn: "capacity (m_freeIndices p) = unat (m_numberOfChunks p)"
    and mf: "m_minFree p \<le> m_numberOfChunks p - m_usedChunks p"
    by (simp_all add: counters_inv_def conservation_def)
  from len c capn have pos: "0 < unat (m_usedChunks p)" by simp
  then have nz: "m_usedChunks p \<noteq> 0" by (simp add: unat_gt_0)
  have dec: "unat (m_usedChunks p - 1) = unat (m_usedChunks p) - 1"
    using nz by (rule unat_minus_one)
  have le1: "m_usedChunks p \<le> m_numberOfChunks p"
    using c by (simp add: word_le_nat_alt)
  have le2: "m_usedChunks p - 1 \<le> m_numberOfChunks p"
    using c dec by (simp add: word_le_nat_alt)
  have "unat (m_minFree p) \<le> unat (m_numberOfChunks p) - unat (m_usedChunks p)"
    using mf unat_sub [OF le1] by (simp add: word_le_nat_alt)
  then have "unat (m_minFree p) \<le> unat (m_numberOfChunks p) - unat (m_usedChunks p - 1)"
    using dec by simp
  then have mf': "m_minFree p \<le> m_numberOfChunks p - (m_usedChunks p - 1)"
    using unat_sub [OF le2] by (simp add: word_le_nat_alt)
  show ?thesis
    using c capn mf' ix cap dec pos unfolding p' counters_inv_def conservation_def by simp
qed

lemma step_counters_inv: "counters_inv p \<Longrightarrow> step p x = Inr p' \<Longrightarrow> counters_inv p'"
proof (cases x)
  case GetChunk
  assume "counters_inv p" "step p x = Inr p'"
  then show ?thesis using GetChunk
    by (auto split: sum.splits intro: getChunk_counters_inv)
next
  case (FreeChunk c)
  assume "counters_inv p" "step p x = Inr p'"
  then show ?thesis using FreeChunk by (auto intro: freeChunk_counters_inv)
qed

lemma run_counters_inv: "counters_inv p \<Longrightarrow> run p xs = Inr p' \<Longrightarrow> counters_inv p'"
proof (induction xs arbitrary: p)
  case Nil
  then show ?case by simp
next
  case (Cons x xs)
  then show ?case
    by (auto split: sum.splits dest: step_counters_inv)
qed

lemma ctor_Inr:
  assumes "snd (MemPool_ctor r cs n m c s) = Inr (p, s')"
  shows "isMultipleOfAlignment cs \<and> n \<noteq> 0 \<and> cs \<le> (- 1) div ucast n \<and>
         (\<exists>raw. p = \<lparr>m_chunkSize = cs, m_numberOfChunks = n, m_usedChunks = 0,
                 m_minFree = n, m_rawMemory = raw, m_freeIndices = init n\<rparr>)"
  using assms
  by (auto simp: MemPool_ctor_def Let_def split: if_splits option.splits)

lemma init_props: "capacity (init n) = unat n \<and> length (indices (init n)) = unat n"
  by (simp add: init_def)

lemma ctor_counters_inv:
  assumes "snd (MemPool_ctor r cs n m c s) = Inr (p, s')"
  shows "counters_inv p"
proof -
  from ctor_Inr [OF assms] obtain raw where
    "p = \<lparr>m_chunkSize = cs, m_numberOfChunks = n, m_usedChunks = 0,
                 m_minFree = n, m_rawMemory = raw, m_freeIndices = init n\<rparr>" by blast
  then show ?thesis by (simp add: counters_inv_def conservation_def init_props)
qed

lemma step_numberOfChunks: "step p x = Inr p' \<Longrightarrow> m_numberOfChunks p' = m_numberOfChunks p"
proof (cases x)
  case GetChunk
  assume "step p x = Inr p'"
  with GetChunk getChunk_cases [of p] show ?thesis by auto
next
  case (FreeChunk c)
  assume "step p x = Inr p'"
  with FreeChunk freeChunk_Inr [of p c p'] show ?thesis by auto
qed

lemma run_numberOfChunks: "run p xs = Inr p' \<Longrightarrow> m_numberOfChunks p' = m_numberOfChunks p"
proof (induction xs arbitrary: p)
  case Nil
  then show ?case by simp
next
  case (Cons x xs)
  then show ?case by (auto split: sum.splits dest: step_numberOfChunks)
qed

lemma step_minFree: "step p x = Inr p' \<Longrightarrow> m_minFree p' \<le> m_minFree p"
proof (cases x)
  case GetChunk
  assume "step p x = Inr p'"
  with GetChunk getChunk_cases [of p] show ?thesis by auto
next
  case (FreeChunk c)
  assume "step p x = Inr p'"
  with FreeChunk freeChunk_Inr [of p c p'] show ?thesis by auto
qed

lemma run_minFree: "run p xs = Inr p' \<Longrightarrow> m_minFree p' \<le> m_minFree p"
proof (induction xs arbitrary: p)
  case Nil
  then show ?case by simp
next
  case (Cons x xs)
  from Cons.prems obtain p1 where s: "step p x = Inr p1" and r: "run p1 xs = Inr p'"
    by (auto split: sum.splits)
  from Cons.IH [OF r] step_minFree [OF s] show ?case by simp
qed

section \<open>Conservation of chunks\<close>

text \<open>
  C1 (conservation).  For a pool that the constructor has built, after any finite
  sequence of completed \<open>getChunk\<close> and \<open>freeChunk\<close> calls run one after the other, the
  number of indices in the free-index queue plus \<open>m_usedChunks\<close> equals the chunk count
  the pool was built with.  Every prefix of a completed sequence is itself a completed
  sequence, so this holds at every point between two calls.
\<close>

theorem conservation_at_quiescent_points:
  assumes "snd (MemPool_ctor r cs n m c s) = Inr (p0, s')"
    and "run p0 ops = Inr p"
  shows "length (indices (m_freeIndices p)) + unat (m_usedChunks p) = unat (m_numberOfChunks p)
         \<and> m_numberOfChunks p = n"
proof -
  from ctor_counters_inv [OF assms(1)] have "counters_inv p0" .
  from run_counters_inv [OF this assms(2)] have "conservation p"
    by (simp add: counters_inv_def)
  moreover from ctor_Inr [OF assms(1)] have "m_numberOfChunks p0 = n" by auto
  with run_numberOfChunks [OF assms(2)] have "m_numberOfChunks p = n" by simp
  ultimately show ?thesis by (simp add: conservation_def)
qed

text \<open>
  The pool of 4 chunks of 128 bytes, built from one allocator used for both requests,
  after two acquisitions, a release and another acquisition.
\<close>

theorem conservation_at_quiescent_points_witness:
  "snd (MemPool_ctor (\<lambda>n. (ucast n + 1) * 4) 128 4 0 0
              (\<lambda>_. \<lparr>startAddress = 4100, length_bytes = 4096, currentPosition = 0\<rparr>))
   = Inr (\<lparr>m_chunkSize = 128, m_numberOfChunks = 4, m_usedChunks = 0, m_minFree = 4,
            m_rawMemory = 4128, m_freeIndices = \<lparr>capacity = 4, indices = [0, 1, 2, 3]\<rparr>\<rparr>,
          (\<lambda>_. \<lparr>startAddress = 4100, length_bytes = 4096, currentPosition = 0\<rparr>)
            (0 := \<lparr>startAddress = 4100, length_bytes = 4096, currentPosition = 560\<rparr>))
   \<and> run \<lparr>m_chunkSize = 128, m_numberOfChunks = 4, m_usedChunks = 0, m_minFree = 4,
            m_rawMemory = 4128, m_freeIndices = \<lparr>capacity = 4, indices = [0, 1, 2, 3]\<rparr>\<rparr>
          [GetChunk, GetChunk, FreeChunk 4128, GetChunk]
     = Inr \<lparr>m_chunkSize = 128, m_numberOfChunks = 4, m_usedChunks = 2, m_minFree = 2,
            m_rawMemory = 4128, m_freeIndices = \<lparr>capacity = 4, indices = [3, 0]\<rparr>\<rparr>
   \<and> length [3, 0 :: u32] + unat (2 :: u32) = unat (4 :: u32)"
proof -
  have h1: "snd (MemPool_ctor (\<lambda>n. (ucast n + 1) * 4) 128 4 0 0
              (\<lambda>_. \<lparr>startAddress = 4100, length_bytes = 4096, currentPosition = 0\<rparr>))
   = Inr (\<lparr>m_chunkSize = 128, m_numberOfChunks = 4, m_usedChunks = 0, m_minFree = 4,
            m_rawMemory = 4128, m_freeIndices = \<lparr>capacity = 4, indices = [0, 1, 2, 3]\<rparr>\<rparr>,
          (\<lambda>_. \<lparr>startAddress = 4100, length_bytes = 4096, currentPosition = 0\<rparr>)
            (0 := \<lparr>startAddress = 4100, length_bytes = 4096, currentPosition = 560\<rparr>))"
    by (simp add: MemPool_ctor_def isMultipleOfAlignment_def CHUNK_MEMORY_ALIGNMENT_def
        allocate_def align_up_def init_def Let_def upt_rec)
  have h2: "run \<lparr>m_chunkSize = 128, m_numberOfChunks = 4, m_usedChunks = 0, m_minFree = 4,
            m_rawMemory = 4128, m_freeIndices = \<lparr>capacity = 4, indices = [0, 1, 2, 3]\<rparr>\<rparr>
          [GetChunk, GetChunk, FreeChunk 4128, GetChunk]
     = Inr \<lparr>m_chunkSize = 128, m_numberOfChunks = 4, m_usedChunks = 2, m_minFree = 2,
            m_rawMemory = 4128, m_freeIndices = \<lparr>capacity = 4, indices = [3, 0]\<rparr>\<rparr>"
    by code_simp
  from conservation_at_quiescent_points [OF h1 h2] h1 h2 show ?thesis by simp
qed

section \<open>The low-water mark\<close>

text \<open>
  When the calls run one after the other, \<open>m_minFree\<close> behaves as a low-water mark: the
  constructor sets it to the chunk count, a later value is at most an earlier one, and
  it is at most \<open>m_numberOfChunks - m_usedChunks\<close>, a subtraction that does not wrap.
\<close>

lemma minFree_sequential:
  assumes "snd (MemPool_ctor r cs n m c s) = Inr (p0, s')"
    and "run p0 ops1 = Inr p1"
    and "run p1 ops2 = Inr p2"
  shows "m_minFree p0 = n
         \<and> m_minFree p2 \<le> m_minFree p1
         \<and> m_usedChunks p1 \<le> m_numberOfChunks p1
         \<and> m_minFree p1 \<le> m_numberOfChunks p1 - m_usedChunks p1"
proof -
  from ctor_Inr [OF assms(1)] have a: "m_minFree p0 = n" by auto
  from run_minFree [OF assms(3)] have b: "m_minFree p2 \<le> m_minFree p1" .
  from ctor_counters_inv [OF assms(1)] have "counters_inv p0" .
  from run_counters_inv [OF this assms(2)] have inv: "counters_inv p1" .
  then have c: "m_usedChunks p1 \<le> m_numberOfChunks p1"
    by (simp add: counters_inv_def conservation_def word_le_nat_alt)
  from inv have d: "m_minFree p1 \<le> m_numberOfChunks p1 - m_usedChunks p1"
    by (simp add: counters_inv_def)
  from a b c d show ?thesis by simp
qed

text \<open>
  One call of \<open>getChunk\<close> that is not interrupted takes four steps and ends where
  \<open>getChunk\<close> ends.
\<close>

lemma getChunk_steps_alone:
  assumes "snd (getChunk p) = Inr (c, p')"
  shows "schedule [ThreadA, ThreadA, ThreadA, ThreadA] (AtPop, b, p) = (Returned c, b, p')"
proof (cases "pop (m_freeIndices p)")
  case None
  with assms show ?thesis by (simp add: getChunk_def)
next
  case (Some iq)
  then obtain i q where "pop (m_freeIndices p) = Some (i, q)" by (cases iq) simp
  with assms show ?thesis
    by (auto simp: getChunk_def adjustMinFree_def Let_def)
qed

text \<open>
  C5 (\<open>minFree\<close>).  The claim: \<open>m_minFree\<close> starts at the chunk count, never increases, and
  is at most \<open>m_numberOfChunks - m_usedChunks\<close> at every observation.  The code breaks it
  when two calls of \<open>getChunk\<close> interleave, because \<open>adjustMinFree\<close> loads, takes the
  minimum and stores in separate actions (the source marks the spot with
  \<open>@todo iox-#1714 ... do we need a CAS loop?\<close>).  On the pool of 4 chunks as the constructor
  returns it: thread A pops index 0, increments \<open>m_usedChunks\<close> to 1 and loads, computing
  the minimum 3; thread B then runs its whole call and stores 2; thread A then stores its
  stale 3.  An observer sees \<open>m_minFree\<close> go from 2 up to 3, and after both calls have
  returned \<open>m_minFree\<close> is 3 while \<open>m_numberOfChunks - m_usedChunks\<close> is 2.
\<close>

theorem minFree_increases_when_getChunk_calls_interleave:
  "snd (MemPool_ctor (\<lambda>n. (ucast n + 1) * 4) 128 4 0 0
              (\<lambda>_. \<lparr>startAddress = 4100, length_bytes = 4096, currentPosition = 0\<rparr>))
   = Inr (\<lparr>m_chunkSize = 128, m_numberOfChunks = 4, m_usedChunks = 0, m_minFree = 4,
            m_rawMemory = 4128, m_freeIndices = \<lparr>capacity = 4, indices = [0, 1, 2, 3]\<rparr>\<rparr>,
          (\<lambda>_. \<lparr>startAddress = 4100, length_bytes = 4096, currentPosition = 0\<rparr>)
            (0 := \<lparr>startAddress = 4100, length_bytes = 4096, currentPosition = 560\<rparr>))
   \<and> schedule [ThreadA, ThreadA, ThreadA, ThreadB, ThreadB, ThreadB, ThreadB]
        (AtPop, AtPop,
         \<lparr>m_chunkSize = 128, m_numberOfChunks = 4, m_usedChunks = 0, m_minFree = 4,
            m_rawMemory = 4128, m_freeIndices = \<lparr>capacity = 4, indices = [0, 1, 2, 3]\<rparr>\<rparr>)
      = (AtStore 0 3, Returned 4256,
         \<lparr>m_chunkSize = 128, m_numberOfChunks = 4, m_usedChunks = 2, m_minFree = 2,
            m_rawMemory = 4128, m_freeIndices = \<lparr>capacity = 4, indices = [2, 3]\<rparr>\<rparr>)
   \<and> schedule [ThreadA]
        (AtStore 0 3, Returned 4256,
         \<lparr>m_chunkSize = 128, m_numberOfChunks = 4, m_usedChunks = 2, m_minFree = 2,
            m_rawMemory = 4128, m_freeIndices = \<lparr>capacity = 4, indices = [2, 3]\<rparr>\<rparr>)
      = (Returned 4128, Returned 4256,
         \<lparr>m_chunkSize = 128, m_numberOfChunks = 4, m_usedChunks = 2, m_minFree = 3,
            m_rawMemory = 4128, m_freeIndices = \<lparr>capacity = 4, indices = [2, 3]\<rparr>\<rparr>)
   \<and> getMinFree \<lparr>m_chunkSize = 128, m_numberOfChunks = 4, m_usedChunks = 2, m_minFree = 2,
            m_rawMemory = 4128, m_freeIndices = \<lparr>capacity = 4, indices = [2, 3]\<rparr>\<rparr> = 2
   \<and> getMinFree \<lparr>m_chunkSize = 128, m_numberOfChunks = 4, m_usedChunks = 2, m_minFree = 3,
            m_rawMemory = 4128, m_freeIndices = \<lparr>capacity = 4, indices = [2, 3]\<rparr>\<rparr> = 3
   \<and> getChunkCount \<lparr>m_chunkSize = 128, m_numberOfChunks = 4, m_usedChunks = 2, m_minFree = 3,
            m_rawMemory = 4128, m_freeIndices = \<lparr>capacity = 4, indices = [2, 3]\<rparr>\<rparr>
       - getUsedChunks \<lparr>m_chunkSize = 128, m_numberOfChunks = 4, m_usedChunks = 2, m_minFree = 3,
            m_rawMemory = 4128, m_freeIndices = \<lparr>capacity = 4, indices = [2, 3]\<rparr>\<rparr> = 2
   \<and> \<not> (3 :: u32) \<le> 2"
proof -
  have h1: "snd (MemPool_ctor (\<lambda>n. (ucast n + 1) * 4) 128 4 0 0
              (\<lambda>_. \<lparr>startAddress = 4100, length_bytes = 4096, currentPosition = 0\<rparr>))
   = Inr (\<lparr>m_chunkSize = 128, m_numberOfChunks = 4, m_usedChunks = 0, m_minFree = 4,
            m_rawMemory = 4128, m_freeIndices = \<lparr>capacity = 4, indices = [0, 1, 2, 3]\<rparr>\<rparr>,
          (\<lambda>_. \<lparr>startAddress = 4100, length_bytes = 4096, currentPosition = 0\<rparr>)
            (0 := \<lparr>startAddress = 4100, length_bytes = 4096, currentPosition = 560\<rparr>))"
    by (simp add: MemPool_ctor_def isMultipleOfAlignment_def CHUNK_MEMORY_ALIGNMENT_def
        allocate_def align_up_def init_def Let_def upt_rec)
  have h2: "schedule [ThreadA, ThreadA, ThreadA, ThreadB, ThreadB, ThreadB, ThreadB]
        (AtPop, AtPop,
         \<lparr>m_chunkSize = 128, m_numberOfChunks = 4, m_usedChunks = 0, m_minFree = 4,
            m_rawMemory = 4128, m_freeIndices = \<lparr>capacity = 4, indices = [0, 1, 2, 3]\<rparr>\<rparr>)
      = (AtStore 0 3, Returned 4256,
         \<lparr>m_chunkSize = 128, m_numberOfChunks = 4, m_usedChunks = 2, m_minFree = 2,
            m_rawMemory = 4128, m_freeIndices = \<lparr>capacity = 4, indices = [2, 3]\<rparr>\<rparr>)"
    by code_simp
  have h3: "schedule [ThreadA]
        (AtStore 0 3, Returned 4256,
         \<lparr>m_chunkSize = 128, m_numberOfChunks = 4, m_usedChunks = 2, m_minFree = 2,
            m_rawMemory = 4128, m_freeIndices = \<lparr>capacity = 4, indices = [2, 3]\<rparr>\<rparr>)
      = (Returned 4128, Returned 4256,
         \<lparr>m_chunkSize = 128, m_numberOfChunks = 4, m_usedChunks = 2, m_minFree = 3,
            m_rawMemory = 4128, m_freeIndices = \<lparr>capacity = 4, indices = [2, 3]\<rparr>\<rparr>)"
    by code_simp
  from h1 h2 h3 show ?thesis
    by (simp add: getMinFree_def getChunkCount_def getUsedChunks_def)
qed

section \<open>Exhaustion\<close>

text \<open>
  C10 (frame property on exhaustion).  When the pop from the free-index queue fails,
  \<open>getChunk\<close> logs a warning, returns the null pointer and hands back the very pool it
  was given: \<open>m_usedChunks\<close>, \<open>m_minFree\<close>, the queue and every other member are untouched.
\<close>

theorem getChunk_exhausted_leaves_pool_unchanged:
  assumes "pop (m_freeIndices p) = None"
  shows "getChunk p = ([WARN], Inr (nullptr, p))"
  using assms by (simp add: getChunk_def)

theorem getChunk_exhausted_leaves_pool_unchanged_witness:
  "pop (m_freeIndices \<lparr>m_chunkSize = 128, m_numberOfChunks = 2, m_usedChunks = 2, m_minFree = 0,
            m_rawMemory = 4128, m_freeIndices = \<lparr>capacity = 2, indices = []\<rparr>\<rparr>) = None
   \<and> getChunk \<lparr>m_chunkSize = 128, m_numberOfChunks = 2, m_usedChunks = 2, m_minFree = 0,
            m_rawMemory = 4128, m_freeIndices = \<lparr>capacity = 2, indices = []\<rparr>\<rparr>
     = ([WARN], Inr (nullptr, \<lparr>m_chunkSize = 128, m_numberOfChunks = 2, m_usedChunks = 2,
            m_minFree = 0, m_rawMemory = 4128,
            m_freeIndices = \<lparr>capacity = 2, indices = []\<rparr>\<rparr>))"
proof -
  have h: "pop (m_freeIndices \<lparr>m_chunkSize = 128, m_numberOfChunks = 2, m_usedChunks = 2,
            m_minFree = 0, m_rawMemory = 4128,
            m_freeIndices = \<lparr>capacity = 2, indices = []\<rparr>\<rparr>) = None"
    by (simp add: pop_def)
  from getChunk_exhausted_leaves_pool_unchanged [OF h] h show ?thesis by simp
qed

section \<open>The file-name budget of FileLock\<close>

text \<open>
  C7 (as amended).  \<open>FileLock::FILENAME_LENGTH\<close> is \<open>IOX_MAX_FILENAME_LENGTH\<close> minus the
  two \<open>sizeof\<close>s, each of which counts a terminating NUL: it equals
  \<open>IOX_MAX_FILENAME_LENGTH - len(prefix) - len(".lock") - 2\<close> in unsigned 64-bit
  arithmetic.
\<close>

theorem FILENAME_LENGTH_budget:
  "FILENAME_LENGTH IOX_MAX_FILENAME_LENGTH IOX_LOCK_FILE_PATH_PREFIX =
     IOX_MAX_FILENAME_LENGTH - of_nat (length IOX_LOCK_FILE_PATH_PREFIX)
       - of_nat (length LOCK_FILE_SUFFIX) - 2"
  by (simp add: FILENAME_LENGTH_def sizeof_char_array_def sizeof_char_def LOCK_FILE_SUFFIX_def)

text \<open>
  The claim as stated subtracts 1 where the code subtracts 2: with the usual values 255
  and \<open>/tmp/\<close> the budget is 243, not 244.
\<close>

theorem FILENAME_LENGTH_budget_counterexample:
  "FILENAME_LENGTH 255 ''/tmp/'' = 243
   \<and> FILENAME_LENGTH 255 ''/tmp/'' \<noteq> 255 - of_nat (length ''/tmp/'') - of_nat (length ''.lock'') - 1"
  by (simp add: FILENAME_LENGTH_def sizeof_char_array_def sizeof_char_def LOCK_FILE_SUFFIX_def)

section \<open>Address arithmetic\<close>

lemma unat_u64_lt: "unat (n::u64) < 18446744073709551616"
  using unsigned_less [of n, where 'a = nat] by simp

lemma unat_ucast_u32: "unat (ucast (n::u32) :: u64) = unat n"
proof -
  have "unat n < 2 ^ 64" using unat_u32_lt [of n] by simp
  then show ?thesis by (simp add: unsigned_ucast_eq take_bit_nat_eq_self)
qed

lemma unat_ucast_down: "unat (x::u64) < 4294967296 \<Longrightarrow> unat (ucast x :: u32) = unat x"
  by (simp add: unsigned_ucast_eq take_bit_nat_eq_self)

lemma unat_mult_u64:
  "unat (a::u64) * unat (b::u64) < 18446744073709551616 \<Longrightarrow> unat (a * b) = unat a * unat b"
proof -
  assume "unat a * unat b < 18446744073709551616"
  then have "unat a * unat b < 2 ^ LENGTH(64)" by simp
  then show ?thesis by (simp only: unat_mult_lem)
qed

lemma overflow_check:
  assumes "n \<noteq> 0"
  shows "(cs \<le> (- 1) div ucast (n::u32)) \<longleftrightarrow> unat (cs::u64) * unat n < 18446744073709551616"
proof -
  have n0: "0 < unat n" using assms by (simp add: unat_gt_0)
  have m: "unat (- 1 :: u64) = 18446744073709551615"
    by (simp add: unsigned_minus_1_eq_mask mask_eq_exp_minus_1)
  have "(cs \<le> (- 1) div ucast n) \<longleftrightarrow> unat cs \<le> 18446744073709551615 div unat n"
    by (simp only: word_le_nat_alt unat_div unat_ucast_u32 m)
  also have "\<dots> \<longleftrightarrow> unat cs * unat n \<le> 18446744073709551615"
    using n0 by (rule less_eq_div_iff_mult_less_eq)
  finally show ?thesis by auto
qed

lemma unat_index_offset:
  assumes "unat cs * unat (i::u32) < 18446744073709551616"
  shows "unat (ucast i * (cs::u64)) = unat i * unat cs"
proof -
  have "unat (ucast i :: u64) * unat cs < 18446744073709551616"
    using assms by (simp add: unat_ucast_u32 mult.commute)
  then have "unat (ucast i * cs) = unat (ucast i :: u64) * unat cs"
    by (rule unat_mult_u64)
  then show ?thesis by (simp add: unat_ucast_u32)
qed


lemma in_range_offset:
  assumes lo: "raw \<le> (c::u64)" and hi: "c \<le> raw + l"
  shows "unat (c - raw) = unat c - unat raw \<and> unat (c - raw) \<le> unat l"
proof -
  from lo hi have "raw \<le> raw + l" by (rule order_trans)
  then have "unat (raw + l) = unat raw + unat l" by (simp only: unat_plus_simple)
  with hi have "unat c \<le> unat raw + unat l" by (simp add: word_le_nat_alt)
  moreover have "unat (c - raw) = unat c - unat raw" using lo by (rule unat_sub)
  ultimately show ?thesis by simp
qed

lemma indexToPointer_pointerToIndex:
  assumes cs: "cs \<noteq> 0"
    and lo: "raw \<le> c" and hi: "c \<le> raw + cs * ucast (k::u32)"
    and al: "(c - raw) mod cs = 0"
  shows "pointerToIndex c cs raw = Inr (ucast ((c - raw) div cs))
         \<and> indexToPointer (ucast ((c - raw) div cs)) cs raw = c
         \<and> (ucast ((c - raw) div cs) :: u32) \<le> k"
proof -
  have pos: "0 < unat cs" using cs by (simp add: unat_gt_0)
  have "unat (cs * ucast k) = unat cs * unat (ucast k :: u64) mod 2 ^ LENGTH(64)"
    by (rule unat_word_ariths)
  then have l: "unat (cs * ucast k) \<le> unat cs * unat k"
    by (simp add: unat_ucast_u32)
  from in_range_offset [OF lo hi] l have le: "unat (c - raw) \<le> unat cs * unat k" by linarith
  from al have dvd: "unat (c - raw) mod unat cs = 0"
    by (simp add: word_unat_eq_iff unat_mod)
  have "unat (c - raw) div unat cs \<le> (unat cs * unat k) div unat cs"
    using le by (rule div_le_mono)
  then have q: "unat (c - raw) div unat cs \<le> unat k" using pos by simp
  then have "unat ((c - raw) div cs) < 4294967296"
    using unat_u32_lt [of k] by (simp add: unat_div)
  then have ix: "unat (ucast ((c - raw) div cs) :: u32) = unat (c - raw) div unat cs"
    by (simp add: unat_ucast_down unat_div)
  have recompose: "unat (c - raw) div unat cs * unat cs = unat (c - raw)"
    using dvd by (simp add: mod_0_imp_dvd)
  have "unat cs * unat (ucast ((c - raw) div cs) :: u32) < 18446744073709551616"
    using recompose unat_u64_lt [of "c - raw"] by (simp add: ix mult.commute)
  then have "unat (ucast (ucast ((c - raw) div cs) :: u32) * cs) = unat (c - raw)"
    using recompose by (simp add: unat_index_offset ix)
  then have "ucast (ucast ((c - raw) div cs) :: u32) * cs = c - raw"
    by (simp add: word_unat_eq_iff)
  then have "indexToPointer (ucast ((c - raw) div cs)) cs raw = c"
    by (simp add: indexToPointer_def Let_def)
  moreover have "pointerToIndex c cs raw = Inr (ucast ((c - raw) div cs))"
    using cs al by (simp add: pointerToIndex_def Let_def)
  moreover have "(ucast ((c - raw) div cs) :: u32) \<le> k"
    using q by (simp add: word_le_nat_alt ix)
  ultimately show ?thesis by simp
qed





section \<open>The chunk area of a constructed pool\<close>

text \<open>
  A pool built from an allocator over a real memory region, with a chunk size other
  than 0, has a chunk area that is a real block of memory, and \<open>getChunk\<close> and
  \<open>freeChunk\<close> keep it so: the indices in the queue always name chunks of the pool.
\<close>

lemma align_up_ge: "a \<le> align_up a k"
proof (cases "k = 0")
  case True
  then show ?thesis by (simp add: align_up_def)
next
  case False
  then have k: "0 < k" by simp
  have "a + k - 1 = (a + k - 1) div k * k + (a + k - 1) mod k" by simp
  moreover have "(a + k - 1) mod k < k" using k by simp
  ultimately have "a + k - 1 < (a + k - 1) div k * k + k" by linarith
  then show ?thesis using k by (simp add: align_up_def)
qed

lemma allocate_Some:
  assumes "allocate a sz al = Some (raw, a')" and "region_ok a" and "sz \<noteq> 0"
  shows "raw \<noteq> nullptr \<and> unat raw + unat sz \<le> 18446744073709551616"
proof -
  let ?aligned = "align_up (unat (startAddress a) + unat (currentPosition a)) (unat al)"
  from assms(1) have fit: "?aligned - unat (startAddress a) + unat sz \<le> unat (length_bytes a)"
    and raw: "raw = of_nat ?aligned"
    by (auto simp: allocate_def Let_def split: if_splits)
  have ge: "unat (startAddress a) + unat (currentPosition a) \<le> ?aligned"
    by (rule align_up_ge)
  from assms(2) have st: "0 < unat (startAddress a)"
    and reg: "unat (startAddress a) + unat (length_bytes a) \<le> 18446744073709551616"
    by (simp_all add: region_ok_def nullptr_def unat_gt_0)
  from assms(3) have szp: "0 < unat sz" by (simp add: unat_gt_0)
  from ge fit reg have top: "?aligned + unat sz \<le> 18446744073709551616" by linarith
  with szp have "?aligned < 2 ^ LENGTH(64)" by simp
  then have u: "unat (of_nat ?aligned :: u64) = ?aligned"
    by (simp add: unat_of_nat)
  from ge st have "0 < ?aligned" by linarith
  with u raw have "0 < unat raw" by simp
  then have "raw \<noteq> nullptr" by (simp add: nullptr_def unat_gt_0)
  moreover from top u raw have "unat raw + unat sz \<le> 18446744073709551616" by simp
  ultimately show ?thesis by simp
qed

lemma init_in_range: "list_all (\<lambda>i. i < n) (indices (init n))"
proof -
  have "of_nat k < n" if "k < unat n" for k
  proof -
    from that unat_u32_lt [of n] have "k < 2 ^ LENGTH(32)" by simp
    then have "unat (of_nat k :: u32) = k" by (simp add: unat_of_nat)
    with that show ?thesis by (simp add: word_less_nat_alt)
  qed
  then show ?thesis by (simp add: init_def list_all_iff)
qed

lemma ctor_chunk_memory_inv:
  assumes ok: "snd (MemPool_ctor r cs n m c s) = Inr (p, s')"
    and reg: "region_ok (s c)" and cs: "cs \<noteq> 0"
  shows "chunk_memory_inv p"
proof -
  from ok obtain raw a1 where n: "n \<noteq> 0" and chk: "cs \<le> (- 1) div ucast n"
    and al: "allocate (s c) (ucast n * cs) CHUNK_MEMORY_ALIGNMENT = Some (raw, a1)"
    and p: "p = \<lparr>m_chunkSize = cs, m_numberOfChunks = n, m_usedChunks = 0,
                 m_minFree = n, m_rawMemory = raw, m_freeIndices = init n\<rparr>"
    by (auto simp: MemPool_ctor_def Let_def split: if_splits option.splits)
  from chk n have nov: "unat cs * unat n < 18446744073709551616"
    by (simp add: overflow_check)
  then have sz: "unat (ucast n * cs) = unat n * unat cs" by (rule unat_index_offset)
  from n cs have "0 < unat n * unat cs" by (simp add: unat_gt_0)
  with sz have "ucast n * cs \<noteq> 0" by (simp add: unat_gt_0 [symmetric])
  from allocate_Some [OF al reg this] sz
  have "raw \<noteq> nullptr" and "unat raw + unat cs * unat n \<le> 18446744073709551616"
    by (simp_all add: mult.commute)
  with n cs init_in_range [of n] show ?thesis
    by (simp add: p chunk_memory_inv_def)
qed

lemma getChunk_chunk_memory_inv:
  assumes "chunk_memory_inv p" and "snd (getChunk p) = Inr (c, p')"
  shows "chunk_memory_inv p'"
proof -
  from getChunk_cases [of p] show ?thesis
  proof (elim disjE exE conjE)
    assume "getChunk p = ([WARN], Inr (nullptr, p))"
    with assms show ?thesis by simp
  next
    fix i q
    assume pp: "pop (m_freeIndices p) = Some (i, q)"
      and g: "getChunk p = ([], Inr (m_rawMemory p + ucast i * m_chunkSize p,
         p\<lparr>m_freeIndices := q, m_usedChunks := m_usedChunks p + 1,
           m_minFree := min (m_numberOfChunks p - (m_usedChunks p + 1)) (m_minFree p)\<rparr>))"
    from pop_Some [OF pp] have ix: "indices (m_freeIndices p) = i # indices q" by simp
    from g assms(2) have p': "p' = p\<lparr>m_freeIndices := q, m_usedChunks := m_usedChunks p + 1,
           m_minFree := min (m_numberOfChunks p - (m_usedChunks p + 1)) (m_minFree p)\<rparr>"
      by simp
    show ?thesis
      using assms(1) ix unfolding p' chunk_memory_inv_def by simp
  qed
qed

lemma freeChunk_chunk_memory_inv:
  assumes inv: "chunk_memory_inv p" and fr: "freeChunk p c = Inr p'"
  shows "chunk_memory_inv p'"
proof -
  from freeChunk_Inr [OF fr] obtain i q where
      pi: "pointerToIndex c (m_chunkSize p) (m_rawMemory p) = Inr i"
    and ps: "push i (m_freeIndices p) = Some q"
    and lo: "m_rawMemory p \<le> c"
    and hi: "c \<le> m_rawMemory p + m_chunkSize p * ucast (m_numberOfChunks p - 1)"
    and p': "p' = p\<lparr>m_freeIndices := q, m_usedChunks := m_usedChunks p - 1\<rparr>"
    by blast
  from inv have cs: "m_chunkSize p \<noteq> 0" and n: "m_numberOfChunks p \<noteq> 0"
    and fit: "unat (m_rawMemory p) + unat (m_chunkSize p) * unat (m_numberOfChunks p)
                \<le> 18446744073709551616"
    and raw: "m_rawMemory p \<noteq> nullptr"
    by (simp_all add: chunk_memory_inv_def)
  from n have dec: "unat (m_numberOfChunks p - 1) = unat (m_numberOfChunks p) - 1"
    by (rule unat_minus_one)
  then have "unat (m_chunkSize p) * unat (m_numberOfChunks p - 1)
               \<le> unat (m_chunkSize p) * unat (m_numberOfChunks p)" by simp
  moreover from raw have "0 < unat (m_rawMemory p)" by (simp add: nullptr_def unat_gt_0)
  ultimately have nov: "unat (m_chunkSize p) * unat (m_numberOfChunks p - 1) < 18446744073709551616"
    using fit by linarith
  from pi cs have al: "(c - m_rawMemory p) mod m_chunkSize p = 0"
    and i: "i = ucast ((c - m_rawMemory p) div m_chunkSize p)"
    by (auto simp: pointerToIndex_def Let_def split: if_splits)
  from indexToPointer_pointerToIndex [OF cs lo hi al] i
  have "i \<le> m_numberOfChunks p - 1" by simp
  then have "unat i \<le> unat (m_numberOfChunks p) - 1" using dec by (simp add: word_le_nat_alt)
  moreover from n have "0 < unat (m_numberOfChunks p)" by (simp add: unat_gt_0)
  ultimately have lt: "i < m_numberOfChunks p" by (simp add: word_less_nat_alt)
  from push_Some [OF ps] have ix: "indices q = indices (m_freeIndices p) @ [i]" by simp
  show ?thesis
    using inv ix lt unfolding p' chunk_memory_inv_def by simp
qed

lemma step_chunk_memory_inv: "chunk_memory_inv p \<Longrightarrow> step p x = Inr p' \<Longrightarrow> chunk_memory_inv p'"
proof (cases x)
  case GetChunk
  assume "chunk_memory_inv p" "step p x = Inr p'"
  then show ?thesis using GetChunk
    by (auto split: sum.splits intro: getChunk_chunk_memory_inv)
next
  case (FreeChunk c)
  assume "chunk_memory_inv p" "step p x = Inr p'"
  then show ?thesis using FreeChunk by (auto intro: freeChunk_chunk_memory_inv)
qed

lemma run_chunk_memory_inv: "chunk_memory_inv p \<Longrightarrow> run p xs = Inr p' \<Longrightarrow> chunk_memory_inv p'"
proof (induction xs arbitrary: p)
  case Nil
  then show ?case by simp
next
  case (Cons x xs)
  then show ?case
    by (auto split: sum.splits dest: step_chunk_memory_inv)
qed

lemma constructed_pool_invariants:
  assumes "snd (MemPool_ctor r cs n m c s) = Inr (p0, s')"
    and "region_ok (s c)" and "cs \<noteq> 0"
    and "run p0 ops = Inr p"
  shows "counters_inv p \<and> chunk_memory_inv p"
proof -
  from ctor_counters_inv [OF assms(1)] have "counters_inv p0" .
  from run_counters_inv [OF this assms(4)] have "counters_inv p" .
  moreover from ctor_chunk_memory_inv [OF assms(1) assms(2) assms(3)] have "chunk_memory_inv p0" .
  from run_chunk_memory_inv [OF this assms(4)] have "chunk_memory_inv p" .
  ultimately show ?thesis by simp
qed

section \<open>Acquiring a chunk\<close>

lemma chunk_address_not_null:
  assumes inv: "chunk_memory_inv p" and lt: "i < m_numberOfChunks p"
  shows "m_rawMemory p + ucast i * m_chunkSize p \<noteq> nullptr"
proof -
  from inv have raw: "0 < unat (m_rawMemory p)"
    and fit: "unat (m_rawMemory p) + unat (m_chunkSize p) * unat (m_numberOfChunks p)
                \<le> 18446744073709551616"
    by (simp_all add: chunk_memory_inv_def nullptr_def unat_gt_0)
  from lt have "Suc (unat i) \<le> unat (m_numberOfChunks p)" by (simp add: word_less_nat_alt)
  then have "unat (m_chunkSize p) * Suc (unat i) \<le> unat (m_chunkSize p) * unat (m_numberOfChunks p)"
    by (rule mult_le_mono2)
  with fit have b: "unat (m_rawMemory p) + unat (m_chunkSize p) * Suc (unat i) \<le> 18446744073709551616"
    by linarith
  have pos: "0 < unat (m_chunkSize p)"
    using inv by (simp add: chunk_memory_inv_def unat_gt_0)
  from b pos have c: "unat (m_rawMemory p) + unat (m_chunkSize p) * unat i < 18446744073709551616"
    by simp
  then have "unat (m_chunkSize p) * unat i < 18446744073709551616" by linarith
  then have off: "unat (ucast i * m_chunkSize p) = unat i * unat (m_chunkSize p)"
    by (rule unat_index_offset)
  from c off have "unat (m_rawMemory p) + unat (ucast i * m_chunkSize p) < 2 ^ LENGTH(64)"
    by (simp add: mult.commute)
  then have "unat (m_rawMemory p + ucast i * m_chunkSize p)
               = unat (m_rawMemory p) + unat (ucast i * m_chunkSize p)"
    by (simp only: unat_add_lem)
  with raw have "0 < unat (m_rawMemory p + ucast i * m_chunkSize p)" by simp
  then show ?thesis by (simp add: nullptr_def unat_gt_0)
qed

text \<open>
  C2 (\<open>getChunk\<close>).  When the pop from the free-index queue fails, \<open>getChunk\<close> returns the
  null pointer and logs a warning.  When the pop succeeds with index \<open>i\<close>, it logs nothing,
  adds one to \<open>m_usedChunks\<close> (without wrap-around in a pool whose counters are
  consistent) and returns \<open>m_rawMemory + i * m_chunkSize\<close>, which is not the null pointer
  in a pool whose chunk area is a real block of memory; so null is returned exactly when
  the pop fails.  No path of \<open>getChunk\<close> is fatal and none logs at fatal level.
\<close>

theorem getChunk_spec:
  "(pop (m_freeIndices p) = None \<longrightarrow> getChunk p = ([WARN], Inr (nullptr, p)))
   \<and> (pop (m_freeIndices p) = Some (i, q) \<longrightarrow>
        getChunk p
          = ([], Inr (m_rawMemory p + ucast i * m_chunkSize p,
                      p\<lparr>m_freeIndices := q,
                        m_usedChunks := m_usedChunks p + 1,
                        m_minFree := min (m_numberOfChunks p - (m_usedChunks p + 1)) (m_minFree p)\<rparr>))
        \<and> (chunk_memory_inv p \<longrightarrow> m_rawMemory p + ucast i * m_chunkSize p \<noteq> nullptr)
        \<and> (counters_inv p \<longrightarrow> unat (m_usedChunks p + 1) = unat (m_usedChunks p) + 1))
   \<and> (\<forall>e. snd (getChunk p) \<noteq> Inl e)
   \<and> FATAL \<notin> set (fst (getChunk p))"
proof (intro conjI impI allI)
  assume "pop (m_freeIndices p) = None"
  then show "getChunk p = ([WARN], Inr (nullptr, p))" by (simp add: getChunk_def)
next
  assume pp: "pop (m_freeIndices p) = Some (i, q)"
  then show "getChunk p
          = ([], Inr (m_rawMemory p + ucast i * m_chunkSize p,
                      p\<lparr>m_freeIndices := q,
                        m_usedChunks := m_usedChunks p + 1,
                        m_minFree := min (m_numberOfChunks p - (m_usedChunks p + 1)) (m_minFree p)\<rparr>))"
    by (simp add: getChunk_def adjustMinFree_def indexToPointer_def Let_def)
next
  assume pp: "pop (m_freeIndices p) = Some (i, q)" and inv: "chunk_memory_inv p"
  from pop_Some [OF pp] have "i \<in> set (indices (m_freeIndices p))" by simp
  with inv have "i < m_numberOfChunks p"
    by (simp add: chunk_memory_inv_def list_all_iff)
  with inv show "m_rawMemory p + ucast i * m_chunkSize p \<noteq> nullptr"
    by (rule chunk_address_not_null)
next
  assume pp: "pop (m_freeIndices p) = Some (i, q)" and inv: "counters_inv p"
  from pop_Some [OF pp] inv have "unat (m_usedChunks p) < unat (m_numberOfChunks p)"
    by (simp add: counters_inv_def conservation_def)
  then show "unat (m_usedChunks p + 1) = unat (m_usedChunks p) + 1" by (rule unat_succ_u32)
next
  fix e
  from getChunk_cases [of p] show "snd (getChunk p) \<noteq> Inl e" by auto
next
  from getChunk_cases [of p] show "FATAL \<notin> set (fst (getChunk p))" by auto
qed

theorem getChunk_spec_witness:
  "pop (m_freeIndices \<lparr>m_chunkSize = 128, m_numberOfChunks = 4, m_usedChunks = 4, m_minFree = 0,
          m_rawMemory = 4128, m_freeIndices = \<lparr>capacity = 4, indices = []\<rparr>\<rparr>) = None
   \<and> getChunk \<lparr>m_chunkSize = 128, m_numberOfChunks = 4, m_usedChunks = 4, m_minFree = 0,
          m_rawMemory = 4128, m_freeIndices = \<lparr>capacity = 4, indices = []\<rparr>\<rparr>
       = ([WARN], Inr (nullptr,
            \<lparr>m_chunkSize = 128, m_numberOfChunks = 4, m_usedChunks = 4, m_minFree = 0,
              m_rawMemory = 4128, m_freeIndices = \<lparr>capacity = 4, indices = []\<rparr>\<rparr>))
   \<and> pop (m_freeIndices \<lparr>m_chunkSize = 128, m_numberOfChunks = 4, m_usedChunks = 1, m_minFree = 3,
          m_rawMemory = 4128, m_freeIndices = \<lparr>capacity = 4, indices = [1, 2, 3]\<rparr>\<rparr>)
       = Some (1, \<lparr>capacity = 4, indices = [2, 3]\<rparr>)
   \<and> chunk_memory_inv \<lparr>m_chunkSize = 128, m_numberOfChunks = 4, m_usedChunks = 1, m_minFree = 3,
          m_rawMemory = 4128, m_freeIndices = \<lparr>capacity = 4, indices = [1, 2, 3]\<rparr>\<rparr>
   \<and> counters_inv \<lparr>m_chunkSize = 128, m_numberOfChunks = 4, m_usedChunks = 1, m_minFree = 3,
          m_rawMemory = 4128, m_freeIndices = \<lparr>capacity = 4, indices = [1, 2, 3]\<rparr>\<rparr>
   \<and> getChunk \<lparr>m_chunkSize = 128, m_numberOfChunks = 4, m_usedChunks = 1, m_minFree = 3,
          m_rawMemory = 4128, m_freeIndices = \<lparr>capacity = 4, indices = [1, 2, 3]\<rparr>\<rparr>
       = ([], Inr (4256,
            \<lparr>m_chunkSize = 128, m_numberOfChunks = 4, m_usedChunks = 2, m_minFree = 2,
              m_rawMemory = 4128, m_freeIndices = \<lparr>capacity = 4, indices = [2, 3]\<rparr>\<rparr>))
   \<and> (4256 :: ptr) \<noteq> nullptr"
proof -
  have h1: "pop (m_freeIndices \<lparr>m_chunkSize = 128, m_numberOfChunks = 4, m_usedChunks = 4,
          m_minFree = 0, m_rawMemory = 4128,
          m_freeIndices = \<lparr>capacity = 4, indices = []\<rparr>\<rparr>) = None"
    by (simp add: pop_def)
  have h2: "pop (m_freeIndices \<lparr>m_chunkSize = 128, m_numberOfChunks = 4, m_usedChunks = 1,
          m_minFree = 3, m_rawMemory = 4128,
          m_freeIndices = \<lparr>capacity = 4, indices = [1, 2, 3]\<rparr>\<rparr>)
       = Some (1, \<lparr>capacity = 4, indices = [2, 3]\<rparr>)"
    by (simp add: pop_def)
  have h3: "chunk_memory_inv \<lparr>m_chunkSize = 128, m_numberOfChunks = 4, m_usedChunks = 1,
          m_minFree = 3, m_rawMemory = 4128,
          m_freeIndices = \<lparr>capacity = 4, indices = [1, 2, 3]\<rparr>\<rparr>"
    by (simp add: chunk_memory_inv_def nullptr_def)
  have h4: "counters_inv \<lparr>m_chunkSize = 128, m_numberOfChunks = 4, m_usedChunks = 1,
          m_minFree = 3, m_rawMemory = 4128,
          m_freeIndices = \<lparr>capacity = 4, indices = [1, 2, 3]\<rparr>\<rparr>"
    by (simp add: counters_inv_def conservation_def)
  from getChunk_spec [of "\<lparr>m_chunkSize = 128, m_numberOfChunks = 4, m_usedChunks = 4,
          m_minFree = 0, m_rawMemory = 4128,
          m_freeIndices = \<lparr>capacity = 4, indices = []\<rparr>\<rparr>" 0 "\<lparr>capacity = 4, indices = []\<rparr>"]
       getChunk_spec [of "\<lparr>m_chunkSize = 128, m_numberOfChunks = 4, m_usedChunks = 1,
          m_minFree = 3, m_rawMemory = 4128,
          m_freeIndices = \<lparr>capacity = 4, indices = [1, 2, 3]\<rparr>\<rparr>" 1
          "\<lparr>capacity = 4, indices = [2, 3]\<rparr>"]
       h1 h2 h3 h4
  show ?thesis by simp
qed

section \<open>Releasing a chunk\<close>

text \<open>
  C3 (\<open>freeChunk\<close>).  For a pool with a chunk size other than 0: a pointer outside
  \<open>[m_rawMemory, m_rawMemory + (m_numberOfChunks - 1) * m_chunkSize]\<close> is fatal, and so
  is a pointer whose distance from \<open>m_rawMemory\<close> is not a multiple of the chunk size.
  For a valid pointer the index \<open>(chunk - m_rawMemory) / m_chunkSize\<close> is pushed; the push
  fails exactly when the queue is full, and then the possible-double-free error is
  raised; otherwise the call returns the pool with the index in the queue and
  \<open>m_usedChunks\<close> decremented by one.
\<close>

theorem freeChunk_spec:
  assumes "m_chunkSize p \<noteq> 0"
  shows "(\<not> (m_rawMemory p \<le> c
             \<and> c \<le> m_rawMemory p + m_chunkSize p * ucast (m_numberOfChunks p - 1))
            \<longrightarrow> freeChunk p c = Inl ExpectsFailed)
         \<and> ((c - m_rawMemory p) mod m_chunkSize p \<noteq> 0 \<longrightarrow> freeChunk p c = Inl ExpectsFailed)
         \<and> (m_rawMemory p \<le> c
             \<and> c \<le> m_rawMemory p + m_chunkSize p * ucast (m_numberOfChunks p - 1)
             \<and> (c - m_rawMemory p) mod m_chunkSize p = 0 \<longrightarrow>
               (case push (ucast ((c - m_rawMemory p) div m_chunkSize p)) (m_freeIndices p) of
                  None \<Rightarrow>
                    capacity (m_freeIndices p) \<le> length (indices (m_freeIndices p))
                    \<and> freeChunk p c = Inl (ErrorHandler POSH__MEMPOOL_POSSIBLE_DOUBLE_FREE)
                | Some q \<Rightarrow>
                    length (indices (m_freeIndices p)) < capacity (m_freeIndices p)
                    \<and> freeChunk p c
                        = Inr (p\<lparr>m_freeIndices := q, m_usedChunks := m_usedChunks p - 1\<rparr>)))"
  using assms
  by (auto simp: freeChunk_def pointerToIndex_def Let_def push_def split: option.splits)

theorem freeChunk_spec_witness:
  "m_chunkSize \<lparr>m_chunkSize = 128, m_numberOfChunks = 4, m_usedChunks = 1, m_minFree = 3,
          m_rawMemory = 4128, m_freeIndices = \<lparr>capacity = 4, indices = [1, 2, 3]\<rparr>\<rparr> \<noteq> 0
   \<and> \<not> ((4128 :: ptr) \<le> 4640 \<and> (4640 :: ptr) \<le> 4128 + 128 * ucast (4 - 1 :: u32))
   \<and> freeChunk \<lparr>m_chunkSize = 128, m_numberOfChunks = 4, m_usedChunks = 1, m_minFree = 3,
          m_rawMemory = 4128, m_freeIndices = \<lparr>capacity = 4, indices = [1, 2, 3]\<rparr>\<rparr> 4640
       = Inl ExpectsFailed
   \<and> (4129 - 4128) mod (128 :: u64) \<noteq> 0
   \<and> freeChunk \<lparr>m_chunkSize = 128, m_numberOfChunks = 4, m_usedChunks = 1, m_minFree = 3,
          m_rawMemory = 4128, m_freeIndices = \<lparr>capacity = 4, indices = [1, 2, 3]\<rparr>\<rparr> 4129
       = Inl ExpectsFailed
   \<and> ((4128 :: ptr) \<le> 4128 \<and> (4128 :: ptr) \<le> 4128 + 128 * ucast (4 - 1 :: u32)
        \<and> (4128 - 4128) mod (128 :: u64) = 0)
   \<and> freeChunk \<lparr>m_chunkSize = 128, m_numberOfChunks = 4, m_usedChunks = 1, m_minFree = 3,
          m_rawMemory = 4128, m_freeIndices = \<lparr>capacity = 4, indices = [1, 2, 3]\<rparr>\<rparr> 4128
       = Inr \<lparr>m_chunkSize = 128, m_numberOfChunks = 4, m_usedChunks = 0, m_minFree = 3,
          m_rawMemory = 4128, m_freeIndices = \<lparr>capacity = 4, indices = [1, 2, 3, 0]\<rparr>\<rparr>
   \<and> freeChunk \<lparr>m_chunkSize = 128, m_numberOfChunks = 4, m_usedChunks = 0, m_minFree = 3,
          m_rawMemory = 4128, m_freeIndices = \<lparr>capacity = 4, indices = [1, 2, 3, 0]\<rparr>\<rparr> 4128
       = Inl (ErrorHandler POSH__MEMPOOL_POSSIBLE_DOUBLE_FREE)"
proof -
  have h1: "m_chunkSize \<lparr>m_chunkSize = 128, m_numberOfChunks = 4, m_usedChunks = 1,
          m_minFree = 3, m_rawMemory = 4128,
          m_freeIndices = \<lparr>capacity = 4, indices = [1, 2, 3]\<rparr>\<rparr> \<noteq> 0"
    by simp
  have h2: "m_chunkSize \<lparr>m_chunkSize = 128, m_numberOfChunks = 4, m_usedChunks = 0,
          m_minFree = 3, m_rawMemory = 4128,
          m_freeIndices = \<lparr>capacity = 4, indices = [1, 2, 3, 0]\<rparr>\<rparr> \<noteq> 0"
    by simp
  from freeChunk_spec [OF h1, of 4640] freeChunk_spec [OF h1, of 4129]
       freeChunk_spec [OF h1, of 4128] freeChunk_spec [OF h2, of 4128] h1
  show ?thesis by (simp add: push_def)
qed

section \<open>The chunk header\<close>

text \<open>
  C8 (\<open>usedSizeOfChunk\<close>).  For every chunk header, \<open>usedSizeOfChunk\<close> returns
  \<open>payloadOffset + payloadSize\<close> (which then fits in 32 bits) when that sum does not exceed
  \<open>chunkSize\<close>, and ends fatally when it does; a header constructed without user header
  and with \<open>payloadSize = UINT32_MAX\<close>, whose \<open>chunkSize\<close> is then set to
  \<open>2 * sizeof(ChunkHeader)\<close>, ends fatally.
\<close>

theorem usedSizeOfChunk_spec:
  "(unat (payloadOffset h) + unat (payloadSize h) \<le> unat (chunkSize h) \<longrightarrow>
      usedSizeOfChunk h = Inr (payloadOffset h + payloadSize h)
      \<and> unat (payloadOffset h + payloadSize h) = unat (payloadOffset h) + unat (payloadSize h))
   \<and> (unat (chunkSize h) < unat (payloadOffset h) + unat (payloadSize h) \<longrightarrow>
        usedSizeOfChunk h = Inl ExpectsFailed)
   \<and> (sz \<noteq> 0 \<longrightarrow>
        usedSizeOfChunk ((fst (ChunkHeader_ctor sz this mem cs (- 1) pa 0 ua))\<lparr>chunkSize := 2 * sz\<rparr>)
          = Inl ExpectsFailed)"
proof (intro conjI impI)
  assume le: "unat (payloadOffset h) + unat (payloadSize h) \<le> unat (chunkSize h)"
  then show "usedSizeOfChunk h = Inr (payloadOffset h + payloadSize h)"
    by (simp add: usedSizeOfChunk_def)
  from le unat_u32_lt [of "chunkSize h"]
  have "unat (payloadOffset h) + unat (payloadSize h) < 2 ^ LENGTH(32)" by simp
  then show "unat (payloadOffset h + payloadSize h) = unat (payloadOffset h) + unat (payloadSize h)"
    by (simp only: unat_add_lem)
next
  assume "unat (chunkSize h) < unat (payloadOffset h) + unat (payloadSize h)"
  then show "usedSizeOfChunk h = Inl ExpectsFailed"
    by (simp add: usedSizeOfChunk_def)
next
  assume "sz \<noteq> 0"
  then have pos: "0 < unat sz" by (simp add: unat_gt_0)
  have m: "unat (- 1 :: u32) = 4294967295"
    by (simp add: unsigned_minus_1_eq_mask mask_eq_exp_minus_1)
  from pos unat_u32_lt [of "2 * sz"] have "unat (2 * sz) < unat sz + 4294967295" by simp
  then show "usedSizeOfChunk ((fst (ChunkHeader_ctor sz this mem cs (- 1) pa 0 ua))\<lparr>chunkSize := 2 * sz\<rparr>)
          = Inl ExpectsFailed"
    by (simp add: usedSizeOfChunk_def ChunkHeader_ctor_def Let_def m)
qed

text \<open>
  The headers of the tests \<open>usedChunkSizeIsSizeOfChunkHeaderPlusOneWhenPayloadIsOne\<close> and
  \<open>usedChunkSizeTerminatesWhenPayloadSizeExceedsChunkSize\<close>, for a header of 32 bytes.
\<close>

theorem usedSizeOfChunk_spec_witness:
  "unat (32 :: u32) + unat (1 :: u32) \<le> unat (64 :: u32)
   \<and> usedSizeOfChunk ((fst (ChunkHeader_ctor 32 4096 (\<lambda>_. 0) 32 1 1 0 0))\<lparr>chunkSize := 2 * 32\<rparr>)
      = Inr 33
   \<and> unat (64 :: u32) < unat (32 :: u32) + unat (- 1 :: u32)
   \<and> (32 :: u32) \<noteq> 0
   \<and> usedSizeOfChunk ((fst (ChunkHeader_ctor 32 4096 (\<lambda>_. 0) 32 (- 1) 1 0 0))\<lparr>chunkSize := 2 * 32\<rparr>)
      = Inl ExpectsFailed"
proof -
  have m: "unat (- 1 :: u32) = 4294967295"
    by (simp add: unsigned_minus_1_eq_mask mask_eq_exp_minus_1)
  have h1: "unat (32 :: u32) + unat (1 :: u32) \<le> unat (64 :: u32)" by simp
  have h2: "unat (64 :: u32) < unat (32 :: u32) + unat (- 1 :: u32)" by (simp add: m)
  have h3: "(32 :: u32) \<noteq> 0" by simp
  from usedSizeOfChunk_spec
         [of "(fst (ChunkHeader_ctor 32 4096 (\<lambda>_. 0) 32 1 1 0 0))\<lparr>chunkSize := 2 * 32\<rparr>"
             32 4096 "\<lambda>_. 0" 32 1 0]
       h1 h2 h3
  show ?thesis by (simp add: ChunkHeader_ctor_def Let_def)
qed

text \<open>
  C9 (\<open>fromPayload\<close>).  \<open>fromPayload\<close> of the null pointer is the null pointer, and for a
  header constructed at address \<open>this\<close>, with or without user header, whose payload
  pointer is not null, \<open>fromPayload\<close> of the payload pointer is \<open>this\<close>.
\<close>

theorem fromPayload_round_trip:
  assumes "ChunkHeader_ctor sz this mem cs ps pa uhs uha = (h, mem')"
    and "payload this h \<noteq> nullptr"
  shows "fromPayload sz mem' (uhs \<noteq> 0) (payload this h) = this
         \<and> fromPayload sz mem' b nullptr = nullptr"
  using assms
  by (auto simp: fromPayload_def ChunkHeader_ctor_def payload_def Let_def split: if_splits)

text \<open>
  A chunk with a user header of 8 bytes and a payload aligned to 8: the payload is at
  offset 48 and the back-offset is stored in the four bytes before it.
\<close>

theorem fromPayload_round_trip_witness:
  "ChunkHeader_ctor 32 4096 (\<lambda>_. 0) 256 128 8 8 8
     = (\<lparr>chunkSize = 256, chunkHeaderVersion = 1, reserved1 = 0, reserved2 = 0, reserved3 = 0,
          originId = InvalidId, sequenceNumber = 0, payloadSize = 128, payloadOffset = 48\<rparr>,
        (\<lambda>_. 0)(4140 := 48))
   \<and> payload 4096 \<lparr>chunkSize = 256, chunkHeaderVersion = 1, reserved1 = 0, reserved2 = 0,
          reserved3 = 0, originId = InvalidId, sequenceNumber = 0, payloadSize = 128,
          payloadOffset = 48\<rparr> \<noteq> nullptr
   \<and> fromPayload 32 ((\<lambda>_. 0)(4140 := 48)) True
        (payload 4096 \<lparr>chunkSize = 256, chunkHeaderVersion = 1, reserved1 = 0, reserved2 = 0,
          reserved3 = 0, originId = InvalidId, sequenceNumber = 0, payloadSize = 128,
          payloadOffset = 48\<rparr>) = 4096
   \<and> fromPayload 32 ((\<lambda>_. 0)(4140 := 48)) True nullptr = nullptr"
proof -
  have h1: "ChunkHeader_ctor 32 4096 (\<lambda>_. 0) 256 128 8 8 8
     = (\<lparr>chunkSize = 256, chunkHeaderVersion = 1, reserved1 = 0, reserved2 = 0, reserved3 = 0,
          originId = InvalidId, sequenceNumber = 0, payloadSize = 128, payloadOffset = 48\<rparr>,
        (\<lambda>_. 0)(4140 := 48))"
    by (simp add: ChunkHeader_ctor_def Let_def align_up_def sizeof_PayloadOffset_t_def)
  have h2: "payload 4096 \<lparr>chunkSize = 256, chunkHeaderVersion = 1, reserved1 = 0, reserved2 = 0,
          reserved3 = 0, originId = InvalidId, sequenceNumber = 0, payloadSize = 128,
          payloadOffset = 48\<rparr> \<noteq> nullptr"
    by (simp add: payload_def nullptr_def)
  from fromPayload_round_trip [OF h1 h2, of True] h1 h2
  show ?thesis by simp
qed

section \<open>Construction\<close>

text \<open>
  C6 (as amended).  The constructor raises the alignment error, after logging at fatal
  level, when the chunk size is not a multiple of \<open>CHUNK_MEMORY_ALIGNMENT\<close>.  For an
  aligned chunk size and at least one chunk, the check
  \<open>chunkSize \<le> UINT64_MAX / numberOfChunks\<close> fails, fatally, exactly when
  \<open>chunkSize * numberOfChunks\<close> does not fit in 64 bits.  When both checks pass, the
  chunk memory is allocated first and the index memory second, from the allocator as the
  first request left it; a request that fails is fatal, and when both succeed the
  constructor returns the pool: no chunk in use, \<open>m_minFree\<close> equal to the chunk count,
  all indices free.
\<close>

theorem MemPool_ctor_spec:
  "(\<not> isMultipleOfAlignment cs \<longrightarrow>
      MemPool_ctor r cs n m c s
        = ([FATAL], Inl (ErrorHandler MEPOO__MEMPOOL_CHUNKSIZE_MUST_BE_MULTIPLE_OF_CHUNK_MEMORY_ALIGNMENT)))
   \<and> (isMultipleOfAlignment cs \<and> n \<noteq> 0 \<and> 18446744073709551616 \<le> unat cs * unat n \<longrightarrow>
        MemPool_ctor r cs n m c s = ([], Inl ExpectsFailed))
   \<and> (isMultipleOfAlignment cs \<and> n \<noteq> 0 \<and> unat cs * unat n < 18446744073709551616 \<longrightarrow>
        (allocate (s c) (ucast n * cs) CHUNK_MEMORY_ALIGNMENT = None \<longrightarrow>
           MemPool_ctor r cs n m c s = ([], Inl ExpectsFailed))
        \<and> (allocate (s c) (ucast n * cs) CHUNK_MEMORY_ALIGNMENT = Some (raw, a1)
             \<and> allocate ((s(c := a1)) m) (r n) CHUNK_MEMORY_ALIGNMENT = None \<longrightarrow>
           MemPool_ctor r cs n m c s = ([], Inl ExpectsFailed))
        \<and> (allocate (s c) (ucast n * cs) CHUNK_MEMORY_ALIGNMENT = Some (raw, a1)
             \<and> allocate ((s(c := a1)) m) (r n) CHUNK_MEMORY_ALIGNMENT = Some (fl, a2) \<longrightarrow>
           MemPool_ctor r cs n m c s
             = ([], Inr (\<lparr>m_chunkSize = cs, m_numberOfChunks = n, m_usedChunks = 0,
                          m_minFree = n, m_rawMemory = raw, m_freeIndices = init n\<rparr>,
                        s(c := a1, m := a2)))))"
  by (simp add: MemPool_ctor_def Let_def overflow_check not_less)

theorem MemPool_ctor_spec_witness:
  "\<not> isMultipleOfAlignment 100
   \<and> MemPool_ctor (\<lambda>n. (ucast n + 1) * 4) 100 4 0 0
        (\<lambda>_. \<lparr>startAddress = 4100, length_bytes = 4096, currentPosition = 0\<rparr>)
      = ([FATAL], Inl (ErrorHandler MEPOO__MEMPOOL_CHUNKSIZE_MUST_BE_MULTIPLE_OF_CHUNK_MEMORY_ALIGNMENT))
   \<and> (isMultipleOfAlignment 9223372036854775808 \<and> (2 :: u32) \<noteq> 0
        \<and> 18446744073709551616 \<le> unat (9223372036854775808 :: u64) * unat (2 :: u32))
   \<and> MemPool_ctor (\<lambda>n. (ucast n + 1) * 4) 9223372036854775808 2 0 0
        (\<lambda>_. \<lparr>startAddress = 4100, length_bytes = 4096, currentPosition = 0\<rparr>)
      = ([], Inl ExpectsFailed)
   \<and> (isMultipleOfAlignment 128 \<and> (4 :: u32) \<noteq> 0
        \<and> unat (128 :: u64) * unat (4 :: u32) < 18446744073709551616)
   \<and> allocate \<lparr>startAddress = 4100, length_bytes = 256, currentPosition = 0\<rparr>
        (ucast (4 :: u32) * 128) CHUNK_MEMORY_ALIGNMENT = None
   \<and> MemPool_ctor (\<lambda>n. (ucast n + 1) * 4) 128 4 0 0
        (\<lambda>_. \<lparr>startAddress = 4100, length_bytes = 256, currentPosition = 0\<rparr>)
      = ([], Inl ExpectsFailed)
   \<and> allocate \<lparr>startAddress = 4100, length_bytes = 4096, currentPosition = 0\<rparr>
        (ucast (4 :: u32) * 128) CHUNK_MEMORY_ALIGNMENT
      = Some (4128, \<lparr>startAddress = 4100, length_bytes = 4096, currentPosition = 540\<rparr>)
   \<and> allocate \<lparr>startAddress = 4100, length_bytes = 4096, currentPosition = 540\<rparr>
        ((ucast (4 :: u32) + 1) * 4) CHUNK_MEMORY_ALIGNMENT
      = Some (4640, \<lparr>startAddress = 4100, length_bytes = 4096, currentPosition = 560\<rparr>)
   \<and> MemPool_ctor (\<lambda>n. (ucast n + 1) * 4) 128 4 0 0
        (\<lambda>_. \<lparr>startAddress = 4100, length_bytes = 4096, currentPosition = 0\<rparr>)
      = ([], Inr (\<lparr>m_chunkSize = 128, m_numberOfChunks = 4, m_usedChunks = 0, m_minFree = 4,
                   m_rawMemory = 4128, m_freeIndices = init 4\<rparr>,
                 (\<lambda>_. \<lparr>startAddress = 4100, length_bytes = 4096, currentPosition = 0\<rparr>)
                   (0 := \<lparr>startAddress = 4100, length_bytes = 4096, currentPosition = 560\<rparr>)))"
proof -
  have h1: "\<not> isMultipleOfAlignment 100"
    by (simp add: isMultipleOfAlignment_def CHUNK_MEMORY_ALIGNMENT_def)
  have h2: "isMultipleOfAlignment 9223372036854775808 \<and> (2 :: u32) \<noteq> 0
        \<and> 18446744073709551616 \<le> unat (9223372036854775808 :: u64) * unat (2 :: u32)"
    by (simp add: isMultipleOfAlignment_def CHUNK_MEMORY_ALIGNMENT_def)
  have h3: "isMultipleOfAlignment 128 \<and> (4 :: u32) \<noteq> 0
        \<and> unat (128 :: u64) * unat (4 :: u32) < 18446744073709551616"
    by (simp add: isMultipleOfAlignment_def CHUNK_MEMORY_ALIGNMENT_def)
  have h4: "allocate \<lparr>startAddress = 4100, length_bytes = 256, currentPosition = 0\<rparr>
        (ucast (4 :: u32) * 128) CHUNK_MEMORY_ALIGNMENT = None"
    by (simp add: allocate_def align_up_def CHUNK_MEMORY_ALIGNMENT_def Let_def)
  have h5: "allocate \<lparr>startAddress = 4100, length_bytes = 4096, currentPosition = 0\<rparr>
        (ucast (4 :: u32) * 128) CHUNK_MEMORY_ALIGNMENT
      = Some (4128, \<lparr>startAddress = 4100, length_bytes = 4096, currentPosition = 540\<rparr>)"
    by (simp add: allocate_def align_up_def CHUNK_MEMORY_ALIGNMENT_def Let_def)
  have h6: "allocate \<lparr>startAddress = 4100, length_bytes = 4096, currentPosition = 540\<rparr>
        ((ucast (4 :: u32) + 1) * 4) CHUNK_MEMORY_ALIGNMENT
      = Some (4640, \<lparr>startAddress = 4100, length_bytes = 4096, currentPosition = 560\<rparr>)"
    by (simp add: allocate_def align_up_def CHUNK_MEMORY_ALIGNMENT_def Let_def)
  note a = MemPool_ctor_spec [of 100 "\<lambda>n. (ucast n + 1) * 4" 4 0 0
        "\<lambda>_. \<lparr>startAddress = 4100, length_bytes = 4096, currentPosition = 0\<rparr>"]
  note b = MemPool_ctor_spec [of 9223372036854775808 "\<lambda>n. (ucast n + 1) * 4" 2 0 0
        "\<lambda>_. \<lparr>startAddress = 4100, length_bytes = 4096, currentPosition = 0\<rparr>"]
  note c = MemPool_ctor_spec [of 128 "\<lambda>n. (ucast n + 1) * 4" 4 0 0
        "\<lambda>_. \<lparr>startAddress = 4100, length_bytes = 256, currentPosition = 0\<rparr>"]
  note d = MemPool_ctor_spec [of 128 "\<lambda>n. (ucast n + 1) * 4" 4 0 0
        "\<lambda>_. \<lparr>startAddress = 4100, length_bytes = 4096, currentPosition = 0\<rparr>"
        4128 "\<lparr>startAddress = 4100, length_bytes = 4096, currentPosition = 540\<rparr>"
        4640 "\<lparr>startAddress = 4100, length_bytes = 4096, currentPosition = 560\<rparr>"]
  from a h1 have r1: "MemPool_ctor (\<lambda>n. (ucast n + 1) * 4) 100 4 0 0
        (\<lambda>_. \<lparr>startAddress = 4100, length_bytes = 4096, currentPosition = 0\<rparr>)
      = ([FATAL], Inl (ErrorHandler MEPOO__MEMPOOL_CHUNKSIZE_MUST_BE_MULTIPLE_OF_CHUNK_MEMORY_ALIGNMENT))"
    by blast
  from b h2 have r2: "MemPool_ctor (\<lambda>n. (ucast n + 1) * 4) 9223372036854775808 2 0 0
        (\<lambda>_. \<lparr>startAddress = 4100, length_bytes = 4096, currentPosition = 0\<rparr>)
      = ([], Inl ExpectsFailed)"
    by blast
  from c h3 h4 have r3: "MemPool_ctor (\<lambda>n. (ucast n + 1) * 4) 128 4 0 0
        (\<lambda>_. \<lparr>startAddress = 4100, length_bytes = 256, currentPosition = 0\<rparr>)
      = ([], Inl ExpectsFailed)"
    by simp
  from d h3 h5 h6 have r4: "MemPool_ctor (\<lambda>n. (ucast n + 1) * 4) 128 4 0 0
        (\<lambda>_. \<lparr>startAddress = 4100, length_bytes = 4096, currentPosition = 0\<rparr>)
      = ([], Inr (\<lparr>m_chunkSize = 128, m_numberOfChunks = 4, m_usedChunks = 0, m_minFree = 4,
                   m_rawMemory = 4128, m_freeIndices = init 4\<rparr>,
                 (\<lambda>_. \<lparr>startAddress = 4100, length_bytes = 4096, currentPosition = 0\<rparr>)
                   (0 := \<lparr>startAddress = 4100, length_bytes = 4096, currentPosition = 560\<rparr>)))"
    by simp
  from h1 h2 h3 h4 h5 h6 r1 r2 r3 r4 show ?thesis by blast
qed

text \<open>
  The claim as stated promises that nothing is fatal once both checks pass.  With an
  aligned size, one chunk and a region of 16 bytes the first request cannot be served,
  and \<open>IOX_EXPECTS(allocationResult.has_value())\<close> ends the construction.
\<close>

theorem MemPool_ctor_spec_counterexample:
  "isMultipleOfAlignment 32
   \<and> unat (32 :: u64) * unat (1 :: u32) < 18446744073709551616
   \<and> (32 :: u64) \<le> (- 1) div ucast (1 :: u32)
   \<and> MemPool_ctor (\<lambda>n. (ucast n + 1) * 4) 32 1 0 1
        (\<lambda>_. \<lparr>startAddress = 4096, length_bytes = 16, currentPosition = 0\<rparr>)
      = ([], Inl ExpectsFailed)"
  by (simp add: MemPool_ctor_def isMultipleOfAlignment_def CHUNK_MEMORY_ALIGNMENT_def
      allocate_def align_up_def Let_def)

end
